theory Spec2Isabelle
  imports Complex_Main "HOL-Library.Multiset" "HOL-Library.Char_ord" "HOL-Library.List_Lexorder"
    "HOL-Library.Product_Lexorder"
begin

section \<open>JavaScript values and errors\<close>

text \<open>
  The bridge plugin (\<^verbatim>\<open>zotero-mcp.js\<close>) receives the decoded JSON body of an RPC
  request. A value is one of the JSON values or \<^verbatim>\<open>undefined\<close> (an absent property).
  A number is modelled as a rational (every finite double is one); an object is the
  list of its properties.
\<close>

datatype jsval =
    JUndefined
  | JNull
  | JBool bool
  | JNum rat
  | JStr string
  | JArr "jsval list"
  | JObj "(string \<times> jsval) list"

text \<open>ToBoolean: what \<^verbatim>\<open>!v\<close>, \<^verbatim>\<open>v || d\<close> and \<^verbatim>\<open>v ? a : b\<close> test.\<close>

fun truthy :: "jsval \<Rightarrow> bool" where
  "truthy JUndefined = False"
| "truthy JNull = False"
| "truthy (JBool b) = b"
| "truthy (JNum n) = (n \<noteq> 0)"
| "truthy (JStr s) = (s \<noteq> [])"
| "truthy (JArr xs) = True"
| "truthy (JObj ps) = True"

text \<open>\<^verbatim>\<open>typeof v === "string"\<close> and \<^verbatim>\<open>Array.isArray(v)\<close>.\<close>

fun is_string :: "jsval \<Rightarrow> bool" where
  "is_string (JStr s) = True"
| "is_string v = False"

fun isArray :: "jsval \<Rightarrow> bool" where
  "isArray (JArr xs) = True"
| "isArray v = False"

text \<open>The elements of an array (none for any other value).\<close>

fun elements :: "jsval \<Rightarrow> jsval list" where
  "elements (JArr xs) = xs"
| "elements v = []"

text \<open>\<^verbatim>\<open>a || b\<close> on values.\<close>

definition js_or :: "jsval \<Rightarrow> jsval \<Rightarrow> jsval" where
  "js_or a b = (if truthy a then a else b)"

text \<open>
  Reading a property of a value that is neither \<^verbatim>\<open>null\<close> nor \<^verbatim>\<open>undefined\<close>:
  an object yields the property's value, every other value (and a missing property)
  yields \<^verbatim>\<open>undefined\<close> for the property names the plugin reads.
\<close>

fun get_prop :: "jsval \<Rightarrow> string \<Rightarrow> jsval" where
  "get_prop (JObj ps) k = (case map_of ps k of Some v \<Rightarrow> v | None \<Rightarrow> JUndefined)"
| "get_prop v k = JUndefined"

text \<open>The characters of a string value (none for any other value).\<close>

fun str_value :: "jsval \<Rightarrow> string" where
  "str_value (JStr s) = s"
| "str_value v = []"

text \<open>Decimal rendering of an integer, for template literals.\<close>

fun digits :: "nat \<Rightarrow> string" where
  "digits n =
     (if n < 10 then [char_of (48 + n)]
      else digits (n div 10) @ [char_of (48 + n mod 10)])"

declare digits.simps [simp del]

definition show_int :: "int \<Rightarrow> string" where
  "show_int i = (if i < 0 then CHR ''-'' # digits (nat (- i)) else digits (nat i))"

fun join_comma :: "string list \<Rightarrow> string" where
  "join_comma [] = []"
| "join_comma [s] = s"
| "join_comma (s # t # ss) = s @ '','' @ join_comma (t # ss)"

text \<open>
  What the plugin throws: an error built by \<^verbatim>\<open>rpcError(code, message, status)\<close>, or
  the engine's TypeError: when \<^verbatim>\<open>null\<close> or \<^verbatim>\<open>undefined\<close> is destructured, and
  when an object that has no callable \<^verbatim>\<open>toString\<close> is converted to a string or a number.
\<close>

datatype js_error =
    RpcError string string nat
  | TypeError

definition rpcError :: "string \<Rightarrow> string \<Rightarrow> nat \<Rightarrow> js_error" where
  "rpcError code message status = RpcError code message status"

fun err_code :: "js_error \<Rightarrow> string option" where
  "err_code (RpcError c m s) = Some c"
| "err_code TypeError = None"

fun err_status :: "js_error \<Rightarrow> nat option" where
  "err_status (RpcError c m s) = Some s"
| "err_status TypeError = None"

text \<open>Destructuring a parameter object: \<^verbatim>\<open>null\<close> and \<^verbatim>\<open>undefined\<close> throw.\<close>

fun destructure :: "jsval \<Rightarrow> js_error + (string \<Rightarrow> jsval)" where
  "destructure JUndefined = Inl TypeError"
| "destructure JNull = Inl TypeError"
| "destructure v = Inr (get_prop v)"

text \<open>
  \<^verbatim>\<open>xs.slice(0, end)\<close>: a negative end counts from the end of the array, and the
  result never reaches outside the array.
\<close>

definition slice0 :: "'a list \<Rightarrow> int \<Rightarrow> 'a list" where
  "slice0 xs e =
     (if e < 0 then take (nat (int (length xs) + e)) xs else take (nat e) xs)"

section \<open>The host application's object model\<close>

text \<open>
  The plugin runs inside Zotero and reaches the library through Zotero's objects, which
  are not code of the plugin. The host is modelled as a record: the library's items and
  collections, and the parts of the host that the plugin only calls: the quick search
  (\<^verbatim>\<open>Zotero.Search\<close> with the condition \<^verbatim>\<open>quicksearch-titleCreatorYear\<close>), the
  type-name tables, the key of a new collection, the failure of a write to a collection
  (the message of what \<^verbatim>\<open>addItem\<close> or \<^verbatim>\<open>removeItem\<close> throws for an item), and two
  conversions of the engine that never throw and are not spelled out here: the
  rendering of a number that is not an integer of at most 53 bits, and the reading of a
  string as a number, truncated to an integer (StringToNumber, then
  ToIntegerOrInfinity; an infinite value is an integer beyond every array length).

  Every call is awaited before the next one, so a command is a sequential function of
  the host's state. \<^verbatim>\<open>Zotero.debug\<close> writes to the log; what matters of it is the
  template literal it is given, which converts its substitutions to strings and may
  throw. An item is a regular item, a note, an attachment or an annotation.
\<close>

datatype item_kind = Regular | Note | Attachment | Annotation

record creator =
  firstName :: string
  lastName :: string
  creatorTypeID :: nat

record item =
  item_id :: nat
  item_key :: string
  item_libraryID :: jsval
  item_kind :: item_kind
  itemTypeID :: nat
  item_fields :: "string \<Rightarrow> string"
  item_creators :: "creator list"
  item_tags :: "string list"
  dateAdded :: string
  dateModified :: string

record collection =
  coll_id :: nat
  coll_key :: string
  coll_name :: string
  coll_libraryID :: jsval
  coll_parentID :: "nat option"
  coll_version :: nat
  coll_items :: "nat list"

record zotero =
  userLibraryID :: nat
  z_items :: "item list"
  z_collections :: "collection list"
  quicksearch :: "jsval \<Rightarrow> string \<Rightarrow> nat list"
  itemTypeName :: "nat \<Rightarrow> string"
  creatorTypeName :: "nat \<Rightarrow> string"
  write_failure :: "nat \<Rightarrow> string option"
  new_key :: "nat \<Rightarrow> string"
  number_to_string :: "rat \<Rightarrow> string"
  string_to_integer :: "string \<Rightarrow> int"

definition isNote :: "item \<Rightarrow> bool" where
  "isNote it = (item_kind it = Note)"

definition isAttachment :: "item \<Rightarrow> bool" where
  "isAttachment it = (item_kind it = Attachment)"

definition isRegularItem :: "item \<Rightarrow> bool" where
  "isRegularItem it = (item_kind it = Regular)"

text \<open>\<^verbatim>\<open>Zotero.Collections.getByLibraryAndKeyAsync\<close>: the collection or nothing.\<close>

definition Collections_getByLibraryAndKey :: "zotero \<Rightarrow> jsval \<Rightarrow> jsval \<Rightarrow> collection option" where
  "Collections_getByLibraryAndKey z lib k =
     find (\<lambda>c. coll_libraryID c = lib \<and> JStr (coll_key c) = k) (z_collections z)"

definition Collections_get :: "zotero \<Rightarrow> nat \<Rightarrow> collection option" where
  "Collections_get z cid = find (\<lambda>c. coll_id c = cid) (z_collections z)"

definition Collections_getByLibrary :: "zotero \<Rightarrow> jsval \<Rightarrow> collection list" where
  "Collections_getByLibrary z lib = filter (\<lambda>c. coll_libraryID c = lib) (z_collections z)"

text \<open>\<^verbatim>\<open>Zotero.Items.getByLibraryAndKeyAsync\<close> and \<^verbatim>\<open>Zotero.Items.getAsync\<close>.\<close>

definition Items_getByLibraryAndKey :: "zotero \<Rightarrow> jsval \<Rightarrow> jsval \<Rightarrow> item option" where
  "Items_getByLibraryAndKey z lib k =
     find (\<lambda>it. item_libraryID it = lib \<and> JStr (item_key it) = k) (z_items z)"

definition Items_get :: "zotero \<Rightarrow> nat list \<Rightarrow> item list" where
  "Items_get z ids = List.map_filter (\<lambda>i. find (\<lambda>it. item_id it = i) (z_items z)) ids"

text \<open>\<^verbatim>\<open>collection.parentKey\<close>: the parent's key, or \<^verbatim>\<open>false\<close> at the top level.\<close>

definition parentKey_of :: "zotero \<Rightarrow> collection \<Rightarrow> jsval" where
  "parentKey_of z c =
     (case coll_parentID c of
        None \<Rightarrow> JBool False
      | Some p \<Rightarrow> (case Collections_get z p of None \<Rightarrow> JBool False | Some pc \<Rightarrow> JStr (coll_key pc)))"

text \<open>\<^verbatim>\<open>item.getCollections()\<close>: the ids of the collections that hold the item.\<close>

definition getCollections :: "zotero \<Rightarrow> item \<Rightarrow> nat list" where
  "getCollections z it =
     map coll_id (filter (\<lambda>c. item_id it \<in> set (coll_items c)) (z_collections z))"

text \<open>The library a request addresses: \<^verbatim>\<open>libraryID || Zotero.Libraries.userLibraryID\<close>.\<close>

definition libID_of :: "zotero \<Rightarrow> jsval \<Rightarrow> jsval" where
  "libID_of z libraryID = js_or libraryID (JNum (of_nat (userLibraryID z)))"

section \<open>Conversions of the engine\<close>

text \<open>
  ToString, as a template literal \<^verbatim>\<open>`${v}`\<close> applies it. A string, a boolean,
  \<^verbatim>\<open>null\<close> and \<^verbatim>\<open>undefined\<close> convert directly. A number that is an integer of at
  most 53 bits is written in decimal digits. An array joins the conversions of its
  elements with commas, \<^verbatim>\<open>null\<close> and \<^verbatim>\<open>undefined\<close> giving the empty string. An
  object of a JSON body has no callable method of its own: if it has a property named
  \<^verbatim>\<open>toString\<close> the conversion finds nothing to call and throws a TypeError, otherwise
  \<^verbatim>\<open>Object.prototype.toString\<close> answers.
\<close>

definition is_safe_integer :: "rat \<Rightarrow> bool" where
  "is_safe_integer q = (of_int \<lfloor>q\<rfloor> = q \<and> \<bar>q\<bar> \<le> 9007199254740992)"

fun collect :: "(js_error + 'a) list \<Rightarrow> js_error + 'a list" where
  "collect [] = Inr []"
| "collect (Inl e # rs) = Inl e"
| "collect (Inr x # rs) = (case collect rs of Inl e \<Rightarrow> Inl e | Inr xs \<Rightarrow> Inr (x # xs))"

fun js_to_string :: "zotero \<Rightarrow> jsval \<Rightarrow> js_error + string" where
  "js_to_string z JUndefined = Inr ''undefined''"
| "js_to_string z JNull = Inr ''null''"
| "js_to_string z (JBool b) = Inr (if b then ''true'' else ''false'')"
| "js_to_string z (JNum q) =
     Inr (if is_safe_integer q then show_int \<lfloor>q\<rfloor> else number_to_string z q)"
| "js_to_string z (JStr s) = Inr s"
| "js_to_string z (JArr xs) =
     map_sum id join_comma
       (collect (map (\<lambda>x. if x = JNull \<or> x = JUndefined then Inr [] else js_to_string z x) xs))"
| "js_to_string z (JObj ps) =
     (if ''toString'' \<in> set (map fst ps) then Inl TypeError else Inr ''[object Object]'')"

text \<open>
  ToIntegerOrInfinity on the argument of \<^verbatim>\<open>slice\<close>: a number is truncated towards
  zero; an array or an object is converted to a string first, which may throw, and the
  string is read as a number (\<^verbatim>\<open>[object Object]\<close> is not one, hence 0).
\<close>

definition js_truncate :: "rat \<Rightarrow> int" where
  "js_truncate q = (if 0 \<le> q then \<lfloor>q\<rfloor> else \<lceil>q\<rceil>)"

fun to_integer :: "zotero \<Rightarrow> jsval \<Rightarrow> js_error + int" where
  "to_integer z (JNum q) = Inr (js_truncate q)"
| "to_integer z JNull = Inr 0"
| "to_integer z JUndefined = Inr 0"
| "to_integer z (JBool b) = Inr (if b then 1 else 0)"
| "to_integer z (JStr s) = Inr (string_to_integer z s)"
| "to_integer z (JArr xs) = map_sum id (string_to_integer z) (js_to_string z (JArr xs))"
| "to_integer z (JObj ps) = map_sum id (\<lambda>s. 0) (js_to_string z (JObj ps))"

text \<open>
  \<^verbatim>\<open>Zotero.debug(`...`)\<close> with the substitutions \<open>vs\<close> of its template literal: the
  error that converting them throws, if any.
\<close>

definition debug :: "zotero \<Rightarrow> jsval list \<Rightarrow> js_error option" where
  "debug z vs = (case collect (map (js_to_string z) vs) of Inl e \<Rightarrow> Some e | Inr ss \<Rightarrow> None)"

text \<open>
  \<^verbatim>\<open>rpcError(code, `prefix${v}`, status)\<close>: the error that reaches the caller is the
  one that the template literal throws, if it does, and the error built otherwise.
\<close>

definition rpcError_about :: "zotero \<Rightarrow> string \<Rightarrow> string \<Rightarrow> jsval \<Rightarrow> nat \<Rightarrow> js_error" where
  "rpcError_about z code prefix v status =
     (case js_to_string z v of Inl e \<Rightarrow> e | Inr s \<Rightarrow> rpcError code (prefix @ s) status)"

section \<open>Serialization helpers\<close>

record creator_json =
  cj_firstName :: string
  cj_lastName :: string
  cj_creatorType :: string

record item_json =
  ij_key :: string
  ij_libraryID :: jsval
  ij_itemType :: string
  ij_title :: string
  ij_creators :: "creator_json list"
  ij_date :: string
  ij_year :: string
  ij_abstractNote :: string
  ij_publicationTitle :: string
  ij_publisher :: string
  ij_DOI :: string
  ij_URL :: string
  ij_collections :: "string list"
  ij_tags :: "string list"
  ij_dateAdded :: string
  ij_dateModified :: string

definition serializeItem :: "zotero \<Rightarrow> item \<Rightarrow> item_json" where
  "serializeItem z it =
     (let creators = map (\<lambda>c. \<lparr> cj_firstName = firstName c, cj_lastName = lastName c,
                                 cj_creatorType = creatorTypeName z (creatorTypeID c) \<rparr>)
                         (item_creators it);
          collections = filter (\<lambda>k. k \<noteq> [])
                          (List.map_filter (\<lambda>colID. map_option coll_key (Collections_get z colID))
                             (getCollections z it))
      in \<lparr> ij_key = item_key it,
           ij_libraryID = item_libraryID it,
           ij_itemType = itemTypeName z (itemTypeID it),
           ij_title = item_fields it ''title'',
           ij_creators = creators,
           ij_date = item_fields it ''date'',
           ij_year = item_fields it ''year'',
           ij_abstractNote = item_fields it ''abstractNote'',
           ij_publicationTitle = item_fields it ''publicationTitle'',
           ij_publisher = item_fields it ''publisher'',
           ij_DOI = item_fields it ''DOI'',
           ij_URL = item_fields it ''url'',
           ij_collections = collections,
           ij_tags = item_tags it,
           ij_dateAdded = dateAdded it,
           ij_dateModified = dateModified it \<rparr>)"

record item_brief =
  ib_key :: string
  ib_title :: string
  ib_firstAuthor :: string
  ib_year :: string
  ib_itemType :: string

definition serializeItemBrief :: "zotero \<Rightarrow> item \<Rightarrow> item_brief" where
  "serializeItemBrief z it =
     (let creators = item_creators it;
          firstAuthor = (case creators of [] \<Rightarrow> [] | c # cs \<Rightarrow> lastName c)
      in \<lparr> ib_key = item_key it,
           ib_title = item_fields it ''title'',
           ib_firstAuthor = firstAuthor,
           ib_year = item_fields it ''year'',
           ib_itemType = itemTypeName z (itemTypeID it) \<rparr>)"

section \<open>Item commands\<close>

record search_result =
  sr_query :: jsval
  sr_total :: nat
  sr_items :: "item_json list"

text \<open>
  \<^verbatim>\<open>searchItems({ query, limit = 50, libraryID })\<close>: the default applies to an absent
  limit only; the ids found are cut to the limit first (the conversion of the limit
  happens in \<^verbatim>\<open>slice\<close>, after the search), then fetched, then notes and attachments
  are filtered out, and \<^verbatim>\<open>total\<close> is the length of what is left.
\<close>

definition searchItems :: "zotero \<Rightarrow> jsval \<Rightarrow> jsval \<Rightarrow> jsval \<Rightarrow> js_error + search_result" where
  "searchItems z query limit0 libraryID =
     (let limit = (if limit0 = JUndefined then JNum 50 else limit0) in
      if \<not> truthy query \<or> \<not> is_string query
      then Inl (rpcError ''INVALID_PARAMS'' ''Search query is required'' 400)
      else
        let libID = libID_of z libraryID;
            itemIDs = quicksearch z libID (str_value query)
        in case to_integer z limit of
             Inl e \<Rightarrow> Inl e
           | Inr stop \<Rightarrow>
               let limitedIDs = slice0 itemIDs stop;
                   items = Items_get z limitedIDs;
                   regularItems = filter isRegularItem items
               in Inr \<lparr> sr_query = query,
                        sr_total = length regularItems,
                        sr_items = map (serializeItem z) regularItems \<rparr>)"

text \<open>\<^verbatim>\<open>getItem({ key, libraryID })\<close>.\<close>

definition getItem :: "zotero \<Rightarrow> jsval \<Rightarrow> jsval \<Rightarrow> js_error + item_json" where
  "getItem z key libraryID =
     (if \<not> truthy key
      then Inl (rpcError ''INVALID_PARAMS'' ''Item key is required'' 400)
      else
        let libID = libID_of z libraryID in
        case Items_getByLibraryAndKey z libID key of
          None \<Rightarrow> Inl (rpcError_about z ''NOT_FOUND'' ''Item not found: '' key 404)
        | Some it \<Rightarrow> Inr (serializeItem z it))"

section \<open>Collection management commands\<close>

text \<open>
  \<^verbatim>\<open>collection.saveTx()\<close> on a new collection: the host assigns the id, the key and
  the version, and the collection joins the library.
\<close>

definition fresh_id :: "zotero \<Rightarrow> nat" where
  "fresh_id z = Suc (foldr max (map coll_id (z_collections z)) 0)"

definition saveTx :: "zotero \<Rightarrow> string \<Rightarrow> jsval \<Rightarrow> nat option \<Rightarrow> collection \<times> zotero" where
  "saveTx z name libID parentID =
     (let c = \<lparr> coll_id = fresh_id z, coll_key = new_key z (fresh_id z), coll_name = name,
                 coll_libraryID = libID, coll_parentID = parentID, coll_version = 0,
                 coll_items = [] \<rparr>
      in (c, z\<lparr> z_collections := z_collections z @ [c] \<rparr>))"

text \<open>
  \<^verbatim>\<open>collection.addItem(id)\<close> and \<^verbatim>\<open>collection.removeItem(id)\<close>: the host either
  throws (with the message of \<open>write_failure\<close>) or updates the collection's members.
\<close>

definition addItem :: "zotero \<Rightarrow> nat \<Rightarrow> nat \<Rightarrow> string + zotero" where
  "addItem z cid iid =
     (case write_failure z iid of
        Some msg \<Rightarrow> Inl msg
      | None \<Rightarrow>
          Inr (z\<lparr> z_collections :=
                    map (\<lambda>c. if coll_id c = cid \<and> iid \<notin> set (coll_items c)
                              then c\<lparr> coll_items := coll_items c @ [iid] \<rparr> else c)
                        (z_collections z) \<rparr>))"

definition removeItem :: "zotero \<Rightarrow> nat \<Rightarrow> nat \<Rightarrow> string + zotero" where
  "removeItem z cid iid =
     (case write_failure z iid of
        Some msg \<Rightarrow> Inl msg
      | None \<Rightarrow>
          Inr (z\<lparr> z_collections :=
                    map (\<lambda>c. if coll_id c = cid
                              then c\<lparr> coll_items := removeAll iid (coll_items c) \<rparr> else c)
                        (z_collections z) \<rparr>))"

record created_json =
  cc_key :: string
  cc_name :: string
  cc_libraryID :: jsval
  cc_parentKey :: jsval
  cc_version :: nat

text \<open>
  \<^verbatim>\<open>createCollection({ name, parentKey, libraryID })\<close>. The line it logs after
  saving names the collection's name and key.
\<close>

definition createCollection ::
  "zotero \<Rightarrow> jsval \<Rightarrow> jsval \<Rightarrow> jsval \<Rightarrow> js_error + (created_json \<times> zotero)" where
  "createCollection z name parentKey libraryID =
     (if \<not> truthy name \<or> \<not> is_string name
      then Inl (rpcError ''INVALID_PARAMS'' ''Collection name is required'' 400)
      else
        let libID = libID_of z libraryID in
        if truthy parentKey \<and> Collections_getByLibraryAndKey z libID parentKey = None
        then Inl (rpcError_about z ''NOT_FOUND'' ''Parent collection not found: '' parentKey 404)
        else
          let parentID = (if truthy parentKey
                          then map_option coll_id (Collections_getByLibraryAndKey z libID parentKey)
                          else None);
              (c, z') = saveTx z (str_value name) libID parentID
          in case debug z' [name, JStr (coll_key c)] of
               Some e \<Rightarrow> Inl e
             | None \<Rightarrow>
                 Inr (\<lparr> cc_key = coll_key c, cc_name = coll_name c,
                            cc_libraryID = coll_libraryID c,
                            cc_parentKey = js_or parentKey JNull,
                            cc_version = coll_version c \<rparr>, z'))"

record collection_json =
  cg_key :: string
  cg_name :: string
  cg_libraryID :: jsval
  cg_parentKey :: jsval
  cg_version :: nat
  cg_itemCount :: nat
  cg_items :: "item_brief list"

text \<open>\<^verbatim>\<open>getCollection({ key, libraryID })\<close>.\<close>

definition getCollection :: "zotero \<Rightarrow> jsval \<Rightarrow> jsval \<Rightarrow> js_error + collection_json" where
  "getCollection z key libraryID =
     (if \<not> truthy key
      then Inl (rpcError ''INVALID_PARAMS'' ''Collection key is required'' 400)
      else
        let libID = libID_of z libraryID in
        case Collections_getByLibraryAndKey z libID key of
          None \<Rightarrow> Inl (rpcError_about z ''NOT_FOUND'' ''Collection not found: '' key 404)
        | Some c \<Rightarrow>
            let itemIDs = coll_items c;
                items = Items_get z itemIDs
            in Inr \<lparr> cg_key = coll_key c, cg_name = coll_name c,
                     cg_libraryID = coll_libraryID c,
                     cg_parentKey = js_or (parentKey_of z c) JNull,
                     cg_version = coll_version c,
                     cg_itemCount = length itemIDs,
                     cg_items = map (serializeItemBrief z) items \<rparr>)"

record key_error =
  ke_key :: jsval
  ke_error :: string

record add_result =
  ar_collectionKey :: jsval
  ar_added :: "jsval list"
  ar_errors :: "key_error list option"

text \<open>
  The loop of \<^verbatim>\<open>addToCollection\<close> over \<^verbatim>\<open>itemKeys\<close>: \<^verbatim>\<open>added\<close> and \<^verbatim>\<open>errors\<close>
  grow by \<^verbatim>\<open>push\<close>; what the host throws inside the \<^verbatim>\<open>try\<close> becomes an entry of
  \<^verbatim>\<open>errors\<close>, and the loop goes on with the next key.
\<close>

fun add_loop ::
  "zotero \<Rightarrow> jsval \<Rightarrow> nat \<Rightarrow> jsval list \<Rightarrow> jsval list \<Rightarrow> key_error list
     \<Rightarrow> zotero \<times> jsval list \<times> key_error list" where
  "add_loop z libID cid [] added errors = (z, added, errors)"
| "add_loop z libID cid (itemKey # rest) added errors =
     (case Items_getByLibraryAndKey z libID itemKey of
        None \<Rightarrow>
          add_loop z libID cid rest added
            (errors @ [\<lparr> ke_key = itemKey, ke_error = ''Item not found'' \<rparr>])
      | Some it \<Rightarrow>
          if isNote it \<or> isAttachment it
          then add_loop z libID cid rest added
                 (errors @ [\<lparr> ke_key = itemKey,
                              ke_error = ''Cannot add notes or attachments directly'' \<rparr>])
          else (case addItem z cid (item_id it) of
                  Inl msg \<Rightarrow>
                    add_loop z libID cid rest added
                      (errors @ [\<lparr> ke_key = itemKey, ke_error = msg \<rparr>])
                | Inr z' \<Rightarrow> add_loop z' libID cid rest (added @ [itemKey]) errors))"

text \<open>
  \<^verbatim>\<open>addToCollection({ collectionKey, itemKeys, libraryID })\<close>. The line it logs
  after the loop names \<^verbatim>\<open>added.length\<close> and \<^verbatim>\<open>collectionKey\<close>.
\<close>

definition addToCollection ::
  "zotero \<Rightarrow> jsval \<Rightarrow> jsval \<Rightarrow> jsval \<Rightarrow> js_error + (add_result \<times> zotero)" where
  "addToCollection z collectionKey itemKeys libraryID =
     (if \<not> truthy collectionKey
      then Inl (rpcError ''INVALID_PARAMS'' ''Collection key is required'' 400)
      else if \<not> isArray itemKeys \<or> length (elements itemKeys) = 0
      then Inl (rpcError ''INVALID_PARAMS'' ''Item keys array is required'' 400)
      else
        let libID = libID_of z libraryID in
        case Collections_getByLibraryAndKey z libID collectionKey of
          None \<Rightarrow>
            Inl (rpcError_about z ''NOT_FOUND'' ''Collection not found: '' collectionKey 404)
        | Some c \<Rightarrow>
            let (z', added, errors) = add_loop z libID (coll_id c) (elements itemKeys) [] []
            in case debug z' [JNum (of_nat (length added)), collectionKey] of
                 Some e \<Rightarrow> Inl e
               | None \<Rightarrow>
                   Inr (\<lparr> ar_collectionKey = collectionKey, ar_added = added,
                              ar_errors = (if length errors > 0 then Some errors else None) \<rparr>,
                        z'))"

record remove_result =
  rr_collectionKey :: jsval
  rr_removed :: "jsval list"
  rr_errors :: "key_error list option"

fun remove_loop ::
  "zotero \<Rightarrow> jsval \<Rightarrow> nat \<Rightarrow> jsval list \<Rightarrow> jsval list \<Rightarrow> key_error list
     \<Rightarrow> zotero \<times> jsval list \<times> key_error list" where
  "remove_loop z libID cid [] removed errors = (z, removed, errors)"
| "remove_loop z libID cid (itemKey # rest) removed errors =
     (case Items_getByLibraryAndKey z libID itemKey of
        None \<Rightarrow>
          remove_loop z libID cid rest removed
            (errors @ [\<lparr> ke_key = itemKey, ke_error = ''Item not found'' \<rparr>])
      | Some it \<Rightarrow>
          (case removeItem z cid (item_id it) of
             Inl msg \<Rightarrow>
               remove_loop z libID cid rest removed
                 (errors @ [\<lparr> ke_key = itemKey, ke_error = msg \<rparr>])
           | Inr z' \<Rightarrow> remove_loop z' libID cid rest (removed @ [itemKey]) errors))"

text \<open>
  \<^verbatim>\<open>removeFromCollection({ collectionKey, itemKeys, libraryID })\<close>. The line it logs
  after the loop names \<^verbatim>\<open>removed.length\<close> and \<^verbatim>\<open>collectionKey\<close>.
\<close>

definition removeFromCollection ::
  "zotero \<Rightarrow> jsval \<Rightarrow> jsval \<Rightarrow> jsval \<Rightarrow> js_error + (remove_result \<times> zotero)" where
  "removeFromCollection z collectionKey itemKeys libraryID =
     (if \<not> truthy collectionKey
      then Inl (rpcError ''INVALID_PARAMS'' ''Collection key is required'' 400)
      else if \<not> isArray itemKeys \<or> length (elements itemKeys) = 0
      then Inl (rpcError ''INVALID_PARAMS'' ''Item keys array is required'' 400)
      else
        let libID = libID_of z libraryID in
        case Collections_getByLibraryAndKey z libID collectionKey of
          None \<Rightarrow>
            Inl (rpcError_about z ''NOT_FOUND'' ''Collection not found: '' collectionKey 404)
        | Some c \<Rightarrow>
            let (z', removed, errors) = remove_loop z libID (coll_id c) (elements itemKeys) [] []
            in case debug z' [JNum (of_nat (length removed)), collectionKey] of
                 Some e \<Rightarrow> Inl e
               | None \<Rightarrow>
                   Inr (\<lparr> rr_collectionKey = collectionKey, rr_removed = removed,
                              rr_errors = (if length errors > 0 then Some errors else None) \<rparr>,
                        z'))"

record collection_entry =
  ce_key :: string
  ce_name :: string
  ce_libraryID :: jsval
  ce_parentKey :: jsval
  ce_itemCount :: nat

text \<open>\<^verbatim>\<open>listCollections({ libraryID, parentKey })\<close>.\<close>

definition listCollections :: "zotero \<Rightarrow> jsval \<Rightarrow> jsval \<Rightarrow> js_error + collection_entry list" where
  "listCollections z libraryID parentKey =
     (let libID = libID_of z libraryID;
          collections = Collections_getByLibrary z libID;
          entry = (\<lambda>c. \<lparr> ce_key = coll_key c, ce_name = coll_name c,
                          ce_libraryID = coll_libraryID c,
                          ce_parentKey = js_or (parentKey_of z c) JNull,
                          ce_itemCount = length (coll_items c) \<rparr>)
      in if truthy parentKey
         then (case Collections_getByLibraryAndKey z libID parentKey of
                 None \<Rightarrow>
                   Inl (rpcError_about z ''NOT_FOUND'' ''Parent collection not found: ''
                          parentKey 404)
               | Some parent \<Rightarrow>
                   Inr (map entry
                          (filter (\<lambda>c. coll_parentID c = Some (coll_id parent)) collections)))
         else Inr (map entry collections))"

section \<open>The RPC endpoint\<close>

datatype rpc_result =
    RCreated created_json
  | RCollection collection_json
  | RAdded add_result
  | RRemoved remove_result
  | RSearch search_result
  | RItem item_json
  | RList "collection_entry list"

text \<open>
  A command called with \<^verbatim>\<open>params\<close>: its parameter list destructures the object
  it is given, so \<^verbatim>\<open>null\<close> throws before the command's body runs.
\<close>

definition with_params :: "jsval \<Rightarrow> ((string \<Rightarrow> jsval) \<Rightarrow> js_error + 'a) \<Rightarrow> js_error + 'a" where
  "with_params params f = (case destructure params of Inl e \<Rightarrow> Inl e | Inr p \<Rightarrow> f p)"

text \<open>
  \<^verbatim>\<open>handleRpcRequest(body)\<close>: \<^verbatim>\<open>const { method, params = {} } = body\<close>, the check
  of \<^verbatim>\<open>method\<close>, the line logged with \<^verbatim>\<open>${method}\<close> in it, and the \<^verbatim>\<open>switch\<close>
  with its \<^verbatim>\<open>default\<close>. The result carries the library after the command; an error
  carries none, as no command changes the library and then throws (the lines logged
  after a change name values that are strings or numbers by then).
\<close>

definition handleRpcRequest :: "zotero \<Rightarrow> jsval \<Rightarrow> js_error + (rpc_result \<times> zotero)" where
  "handleRpcRequest z body =
     (case destructure body of
        Inl e \<Rightarrow> Inl e
      | Inr b \<Rightarrow>
          let method = b ''method'';
              params = (if b ''params'' = JUndefined then JObj [] else b ''params'')
          in if \<not> truthy method
             then Inl (rpcError ''INVALID_REQUEST'' ''Method is required'' 400)
             else
               case debug z [method] of
                 Some e \<Rightarrow> Inl e
               | None \<Rightarrow>
                   if method = JStr ''createCollection''
                   then with_params params (\<lambda>p. map_sum id (map_prod RCreated id)
                          (createCollection z (p ''name'') (p ''parentKey'') (p ''libraryID'')))
                   else if method = JStr ''getCollection''
                   then with_params params (\<lambda>p. map_sum id (\<lambda>r. (RCollection r, z))
                          (getCollection z (p ''key'') (p ''libraryID'')))
                   else if method = JStr ''addToCollection''
                   then with_params params (\<lambda>p. map_sum id (map_prod RAdded id)
                          (addToCollection z (p ''collectionKey'') (p ''itemKeys'')
                             (p ''libraryID'')))
                   else if method = JStr ''removeFromCollection''
                   then with_params params (\<lambda>p. map_sum id (map_prod RRemoved id)
                          (removeFromCollection z (p ''collectionKey'') (p ''itemKeys'')
                             (p ''libraryID'')))
                   else if method = JStr ''searchItems''
                   then with_params params (\<lambda>p. map_sum id (\<lambda>r. (RSearch r, z))
                          (searchItems z (p ''query'') (p ''limit'') (p ''libraryID'')))
                   else if method = JStr ''getItem''
                   then with_params params (\<lambda>p. map_sum id (\<lambda>r. (RItem r, z))
                          (getItem z (p ''key'') (p ''libraryID'')))
                   else if method = JStr ''listCollections''
                   then with_params params (\<lambda>p. map_sum id (\<lambda>r. (RList r, z))
                          (listCollections z (p ''libraryID'') (p ''parentKey'')))
                   else Inl (rpcError_about z ''METHOD_NOT_FOUND'' ''Unknown method: ''
                               method 404))"

text \<open>
  The endpoint's \<^verbatim>\<open>catch\<close>: the response's HTTP status is \<^verbatim>\<open>error.status || 500\<close>
  and its error field is \<^verbatim>\<open>error.code || "INTERNAL_ERROR"\<close>.
\<close>

fun response_status :: "js_error \<Rightarrow> nat" where
  "response_status (RpcError c m s) = (if s \<noteq> 0 then s else 500)"
| "response_status TypeError = 500"

fun response_error :: "js_error \<Rightarrow> string" where
  "response_error (RpcError c m s) = (if c \<noteq> [] then c else ''INTERNAL_ERROR'')"
| "response_error TypeError = ''INTERNAL_ERROR''"

section \<open>A small library, for evaluating the commands\<close>

definition ex_item :: "nat \<Rightarrow> string \<Rightarrow> item_kind \<Rightarrow> item" where
  "ex_item i k kd =
     \<lparr> item_id = i, item_key = k, item_libraryID = JNum 1, item_kind = kd, itemTypeID = 2,
       item_fields = (\<lambda>f. if f = ''title'' then ''Paper '' @ k else []),
       item_creators = [], item_tags = [],
       dateAdded = ''2024-01-01 00:00:00'', dateModified = ''2024-01-02 00:00:00'' \<rparr>"

definition ex_host :: zotero where
  "ex_host =
     \<lparr> userLibraryID = 1,
       z_items = [ex_item 11 ''AAAA1111'' Regular, ex_item 12 ''BBBB2222'' Note,
                  ex_item 13 ''CCCC3333'' Regular, ex_item 14 ''DDDD4444'' Regular,
                  ex_item 15 ''EEEE5555'' Attachment, ex_item 16 ''FFFF6666'' Annotation],
       z_collections =
         [\<lparr> coll_id = 10, coll_key = ''COLL0001'', coll_name = ''Reading'',
            coll_libraryID = JNum 1, coll_parentID = None, coll_version = 3,
            coll_items = [11] \<rparr>],
       quicksearch = (\<lambda>lib q. if lib = JNum 1 then [11, 12, 13, 14] else []),
       itemTypeName = (\<lambda>t. ''journalArticle''),
       creatorTypeName = (\<lambda>t. ''author''),
       write_failure = (\<lambda>i. if i = 16 then Some ''Cannot add annotation to collection'' else None),
       new_key = (\<lambda>n. ''NEWKEY'' @ digits n),
       number_to_string = (\<lambda>q. ''NaN''),
       string_to_integer = (\<lambda>s. 0) \<rparr>"

definition ex_result :: search_result where
  "ex_result =
     \<lparr> sr_query = JStr ''paper'', sr_total = 1,
       sr_items = [serializeItem ex_host (ex_item 11 ''AAAA1111'' Regular)] \<rparr>"

section \<open>Notions for stating the properties of the search command\<close>

text \<open>The ids the host's quick search finds for a request, before any truncation.\<close>

definition search_hits :: "zotero \<Rightarrow> jsval \<Rightarrow> jsval \<Rightarrow> nat list" where
  "search_hits z query libraryID = quicksearch z (libID_of z libraryID) (str_value query)"

definition regular_among :: "zotero \<Rightarrow> nat list \<Rightarrow> item list" where
  "regular_among z ids = filter isRegularItem (Items_get z ids)"

text \<open>All regular items that match, that is, what is there to count before truncation.\<close>

definition all_matches :: "zotero \<Rightarrow> jsval \<Rightarrow> jsval \<Rightarrow> item list" where
  "all_matches z query libraryID = regular_among z (search_hits z query libraryID)"

text \<open>
  The \<^verbatim>\<open>limit\<close> parameter (50 when absent) converts to an integer: the conversion
  that \<^verbatim>\<open>slice\<close> applies to it does not throw.
\<close>

definition limit_converts :: "zotero \<Rightarrow> jsval \<Rightarrow> bool" where
  "limit_converts z limit =
     (\<not> isl (to_integer z (if limit = JUndefined then JNum 50 else limit)))"

text \<open>
  The integer that \<^verbatim>\<open>slice\<close> receives for a given \<^verbatim>\<open>limit\<close> parameter (0 stands in
  where the conversion throws and \<^verbatim>\<open>slice\<close> receives nothing).
\<close>

definition effective_limit :: "zotero \<Rightarrow> jsval \<Rightarrow> int" where
  "effective_limit z limit =
     (case to_integer z (if limit = JUndefined then JNum 50 else limit) of
        Inl e \<Rightarrow> 0
      | Inr n \<Rightarrow> n)"

text \<open>The regular items among the hits that survive the truncation.\<close>

definition kept_items :: "zotero \<Rightarrow> jsval \<Rightarrow> jsval \<Rightarrow> jsval \<Rightarrow> item list" where
  "kept_items z query limit libraryID =
     regular_among z (slice0 (search_hits z query libraryID) (effective_limit z limit))"

definition reported_total :: "js_error + search_result \<Rightarrow> nat option" where
  "reported_total res = (case res of Inl e \<Rightarrow> None | Inr r \<Rightarrow> Some (sr_total r))"

definition returned_count :: "js_error + search_result \<Rightarrow> nat option" where
  "returned_count res = (case res of Inl e \<Rightarrow> None | Inr r \<Rightarrow> Some (length (sr_items r)))"

definition nonempty_string :: "jsval \<Rightarrow> bool" where
  "nonempty_string v = (case v of JStr s \<Rightarrow> s \<noteq> [] | _ \<Rightarrow> False)"

text \<open>
  A query text that is empty after trimming: it consists of white space only
  (space, tab, line feed, carriage return).
\<close>

definition blank :: "string \<Rightarrow> bool" where
  "blank s = list_all (\<lambda>c. c \<in> set [CHR '' '', CHR 0x09, CHR 0x0A, CHR 0x0D]) s"

section \<open>Notions for stating the properties of adding to a collection\<close>

text \<open>
  What happens to one key in the loop of \<^verbatim>\<open>addToCollection\<close>: the message of its
  entry in \<^verbatim>\<open>errors\<close>, or nothing when the key is added.
\<close>

definition add_outcome :: "zotero \<Rightarrow> jsval \<Rightarrow> jsval \<Rightarrow> string option" where
  "add_outcome z libID itemKey =
     (case Items_getByLibraryAndKey z libID itemKey of
        None \<Rightarrow> Some ''Item not found''
      | Some it \<Rightarrow>
          if isNote it \<or> isAttachment it then Some ''Cannot add notes or attachments directly''
          else write_failure z (item_id it))"

definition error_of :: "zotero \<Rightarrow> jsval \<Rightarrow> jsval \<Rightarrow> key_error" where
  "error_of z libID k = \<lparr> ke_key = k, ke_error = the (add_outcome z libID k) \<rparr>"

text \<open>The \<^verbatim>\<open>added\<close> and \<^verbatim>\<open>errors\<close> lists of a response (\<^verbatim>\<open>errors\<close> is absent when empty).\<close>

definition added_keys :: "js_error + (add_result \<times> zotero) \<Rightarrow> jsval list" where
  "added_keys res = (case res of Inl e \<Rightarrow> [] | Inr (r, z') \<Rightarrow> ar_added r)"

definition error_entries :: "js_error + (add_result \<times> zotero) \<Rightarrow> key_error list" where
  "error_entries res =
     (case res of
        Inl e \<Rightarrow> []
      | Inr (r, z') \<Rightarrow> (case ar_errors r of None \<Rightarrow> [] | Some es \<Rightarrow> es))"

definition ex_keys :: "jsval list" where
  "ex_keys = [JStr ''AAAA1111'', JStr ''ZZZZ0000'', JStr ''BBBB2222'', JStr ''FFFF6666'',
              JStr ''CCCC3333'']"

definition ex_collection :: collection where
  "ex_collection = \<lparr> coll_id = 10, coll_key = ''COLL0001'', coll_name = ''Reading'',
            coll_libraryID = JNum 1, coll_parentID = None, coll_version = 3,
            coll_items = [11] \<rparr>"

section \<open>Notions for stating the properties of the endpoint\<close>

text \<open>
  The seven commands of the \<^verbatim>\<open>switch\<close>; whether the body has a \<^verbatim>\<open>method\<close> field;
  the code of the error a call raises, with the HTTP status the endpoint answers; and the
  codes that the seven commands themselves can raise (none for a TypeError).
\<close>

text \<open>
  A value that ToString converts: not an object with a property named \<^verbatim>\<open>toString\<close>,
  and not an array that holds a value that does not convert (\<^verbatim>\<open>null\<close> and
  \<^verbatim>\<open>undefined\<close> apart, which an array writes as the empty string).
\<close>

fun converts :: "jsval \<Rightarrow> bool" where
  "converts (JObj ps) = (''toString'' \<notin> set (map fst ps))"
| "converts (JArr xs) = list_all (\<lambda>x. x = JNull \<or> x = JUndefined \<or> converts x) xs"
| "converts v = True"

definition supported_methods :: "string list" where
  "supported_methods = [''createCollection'', ''getCollection'', ''addToCollection'',
     ''removeFromCollection'', ''searchItems'', ''getItem'', ''listCollections'']"

definition method_present :: "jsval \<Rightarrow> bool" where
  "method_present body = (case body of JObj ps \<Rightarrow> map_of ps ''method'' \<noteq> None | _ \<Rightarrow> False)"

definition raised_code :: "js_error + 'a \<Rightarrow> string option" where
  "raised_code res = (case res of Inl e \<Rightarrow> err_code e | Inr r \<Rightarrow> None)"

definition raised_status :: "js_error + 'a \<Rightarrow> nat option" where
  "raised_status res = (case res of Inl e \<Rightarrow> Some (response_status e) | Inr r \<Rightarrow> None)"

definition command_codes :: "string option set" where
  "command_codes = {None, Some ''INVALID_PARAMS'', Some ''NOT_FOUND''}"

section \<open>The ranking core\<close>

text \<open>
  The relevance-ranking search engine that the specification describes is not part of
  the sources at hand (they hold the bridge plugin only). Its components are modelled
  here from the specification: tokenizer, field extractor, signal matcher, scorer,
  ranker and citation-key resolver. Scores are rational numbers. What the specification
  leaves open is a field of a configuration: the base score of each signal, the weights
  of the fields, and the character tables of the normalisation (the folding of case and
  diacritics, and which characters are alphanumeric).
\<close>

subsection \<open>Characters\<close>

definition is_upper :: "char \<Rightarrow> bool" where
  "is_upper c = (65 \<le> (of_char c :: nat) \<and> (of_char c :: nat) \<le> 90)"

definition is_lower :: "char \<Rightarrow> bool" where
  "is_lower c = (97 \<le> (of_char c :: nat) \<and> (of_char c :: nat) \<le> 122)"

definition is_digit :: "char \<Rightarrow> bool" where
  "is_digit c = (48 \<le> (of_char c :: nat) \<and> (of_char c :: nat) \<le> 57)"

definition is_alnum :: "char \<Rightarrow> bool" where
  "is_alnum c = (is_upper c \<or> is_lower c \<or> is_digit c)"

definition is_space :: "char \<Rightarrow> bool" where
  "is_space c = (c \<in> set [CHR '' '', CHR 0x09, CHR 0x0A, CHR 0x0B, CHR 0x0C, CHR 0x0D])"

definition to_lower :: "char \<Rightarrow> char" where
  "to_lower c = (if is_upper c then char_of ((of_char c :: nat) + 32) else c)"

text \<open>Splitting at every separator, empty pieces dropped; \<open>cur\<close> is the piece being read.\<close>

fun split_by :: "(char \<Rightarrow> bool) \<Rightarrow> string \<Rightarrow> string \<Rightarrow> string list" where
  "split_by sep cur [] = (if cur = [] then [] else [cur])"
| "split_by sep cur (c # cs) =
     (if sep c then (if cur = [] then [] else [cur]) @ split_by sep [] cs
      else split_by sep (cur @ [c]) cs)"

definition trim :: "string \<Rightarrow> string" where
  "trim s = rev (dropWhile is_space (rev (dropWhile is_space s)))"

subsection \<open>Configuration\<close>

datatype coefficient = Dice | Jaccard

text \<open>
  Modelled from the spec: the constants of the data model (3) and of the design notes
  (9), "exposed as an explicit configuration structure": one base score per match
  signal, the fuzzy threshold, the AND-bonus factor, which of the two trigram
  coefficients the fuzzy signal uses ("Dice/Jaccard"), and the FieldWeight table. With
  them come the two character tables of the normalisation (4.1): \<open>foldText\<close> makes a
  text "lowercase, diacritic-folded", and \<open>isAlnum\<close> tells the alphanumeric characters
  from the separators.
\<close>

record config =
  exactScore :: rat
  wordBoundaryScore :: rat
  substringScore :: rat
  fuzzyScore :: rat
  fuzzyThreshold :: rat
  andBonus :: rat
  similarityCoefficient :: coefficient
  fieldWeight :: "string \<Rightarrow> rat"
  foldText :: "string \<Rightarrow> string"
  isAlnum :: "char \<Rightarrow> bool"

definition field_names :: "string list" where
  "field_names = [''title'', ''abstractNote'', ''publicationTitle'', ''DOI'', ''url'', ''year'',
     ''authors'', ''tags'', ''citationKey'']"

text \<open>
  Modelled from the spec: what the data model (3) demands of the constants. The base
  scores are "strictly ordered Exact > WordBoundary > Substring > Fuzzy > NoMatch(0)";
  the threshold is a similarity value; the bonus is a reward; every field has a weight.
\<close>

definition valid_config :: "config \<Rightarrow> bool" where
  "valid_config cfg =
     (0 < fuzzyScore cfg \<and> fuzzyScore cfg < substringScore cfg
      \<and> substringScore cfg < wordBoundaryScore cfg
      \<and> wordBoundaryScore cfg < exactScore cfg
      \<and> 0 < fuzzyThreshold cfg \<and> fuzzyThreshold cfg \<le> 1
      \<and> 1 < andBonus cfg
      \<and> list_all (\<lambda>f. 0 < fieldWeight cfg f) field_names)"

text \<open>
  A configuration to evaluate with: the recommended threshold 0.35 and bonus 1.2, the
  weights of the project's description (title and citation key 3, DOI and authors 2,
  tags 1.5, abstract 1), representative base scores, and the character tables of ASCII
  (on which diacritic folding changes nothing).
\<close>

definition default_config :: config where
  "default_config =
     \<lparr> exactScore = 100, wordBoundaryScore = 75, substringScore = 50, fuzzyScore = 25,
       fuzzyThreshold = 35 / 100, andBonus = 12 / 10, similarityCoefficient = Dice,
       fieldWeight = (\<lambda>f. if f = ''title'' \<or> f = ''citationKey'' then 3
                           else if f = ''DOI'' \<or> f = ''authors'' then 2
                           else if f = ''tags'' then 3 / 2
                           else 1),
       foldText = map to_lower,
       isAlnum = is_alnum \<rparr>"

subsection \<open>Tokenizer and normalizer\<close>

text \<open>
  Modelled from the spec: the normalisation of the tokenizer (4.1), "lowercase,
  diacritic-folded", by the folding of the configuration.
\<close>

definition normalize_text :: "config \<Rightarrow> string \<Rightarrow> string" where
  "normalize_text cfg s = foldText cfg s"

datatype query_error = InvalidQuery

text \<open>
  Modelled from the spec: the tokenizer (4.1). "Fails with InvalidQuery if empty or
  whitespace-only after trimming. Output: ordered sequence of terms, lowercase,
  diacritic-folded, split on runs of non-alphanumeric characters, empty tokens dropped.
  No deduplication."
\<close>

definition tokenize :: "config \<Rightarrow> string \<Rightarrow> query_error + string list" where
  "tokenize cfg query =
     (if trim query = [] then Inl InvalidQuery
      else Inr (split_by (\<lambda>c. \<not> isAlnum cfg c) [] (normalize_text cfg query)))"

subsection \<open>Signal matcher\<close>

fun starts_with :: "string \<Rightarrow> string \<Rightarrow> bool" where
  "starts_with [] s = True"
| "starts_with (p # ps) [] = False"
| "starts_with (p # ps) (c # cs) = (p = c \<and> starts_with ps cs)"

text \<open>The term occurs somewhere in the text.\<close>

fun contains :: "string \<Rightarrow> string \<Rightarrow> bool" where
  "contains t [] = (t = [])"
| "contains t (c # cs) = (starts_with t (c # cs) \<or> contains t cs)"

definition ends_word :: "(char \<Rightarrow> bool) \<Rightarrow> string \<Rightarrow> string \<Rightarrow> bool" where
  "ends_word alnum t s = (case drop (length t) s of [] \<Rightarrow> True | d # ds \<Rightarrow> \<not> alnum d)"

text \<open>
  The term occurs in the text between boundaries; \<open>b\<close> says whether the position
  reached follows a boundary (the start of the text or a non-alphanumeric character).
\<close>

fun contains_word :: "(char \<Rightarrow> bool) \<Rightarrow> string \<Rightarrow> bool \<Rightarrow> string \<Rightarrow> bool" where
  "contains_word alnum t b [] = (b \<and> t = [])"
| "contains_word alnum t b (c # cs) =
     ((b \<and> starts_with t (c # cs) \<and> ends_word alnum t (c # cs))
      \<or> contains_word alnum t (\<not> alnum c) cs)"

fun trigrams :: "string \<Rightarrow> string list" where
  "trigrams (a # b # c # cs) = [a, b, c] # trigrams (b # c # cs)"
| "trigrams s = []"

text \<open>
  Modelled from the spec: the trigram similarity of the glossary and of 4.3, "comparing
  the sets of overlapping 3-character substrings of two strings", as the Dice or the
  Jaccard coefficient of the two sets.
\<close>

definition similarity :: "coefficient \<Rightarrow> string \<Rightarrow> string \<Rightarrow> rat" where
  "similarity co s t =
     (let a = remdups (trigrams s); b = remdups (trigrams t);
          shared = length (filter (\<lambda>g. g \<in> set b) a)
      in case co of
           Dice \<Rightarrow>
             (if length a + length b = 0 then 0
              else of_nat (2 * shared) / of_nat (length a + length b))
         | Jaccard \<Rightarrow>
             (if length (remdups (a @ b)) = 0 then 0
              else of_nat shared / of_nat (length (remdups (a @ b)))))"

text \<open>
  Modelled from the spec: the similarity "between term and the most similar
  whitespace-delimited token inside fieldText" (4.3).
\<close>

definition best_similarity :: "coefficient \<Rightarrow> string \<Rightarrow> string \<Rightarrow> rat" where
  "best_similarity co t fieldText =
     foldr max (map (similarity co t) (split_by is_space [] fieldText)) 0"

datatype signal = Exact | WordBoundary | Substring | Fuzzy rat | NoMatch

text \<open>
  Modelled from the spec: when each signal of 4.3 applies to a (term, fieldText) pair.
  Exact: the field text, normalised, equals the term. WordBoundary: the term occurs
  delimited by non-alphanumeric boundaries or the start or end of the text. Substring:
  the term occurs anywhere. Fuzzy: the similarity "meets or exceeds a fixed threshold".
\<close>

definition is_exact :: "config \<Rightarrow> string \<Rightarrow> string \<Rightarrow> bool" where
  "is_exact cfg t fieldText = (normalize_text cfg fieldText = t)"

definition is_word_boundary :: "config \<Rightarrow> string \<Rightarrow> string \<Rightarrow> bool" where
  "is_word_boundary cfg t fieldText =
     contains_word (isAlnum cfg) t True (normalize_text cfg fieldText)"

definition is_substring :: "config \<Rightarrow> string \<Rightarrow> string \<Rightarrow> bool" where
  "is_substring cfg t fieldText = contains t (normalize_text cfg fieldText)"

definition fuzzy_similarity :: "config \<Rightarrow> string \<Rightarrow> string \<Rightarrow> rat" where
  "fuzzy_similarity cfg t fieldText =
     best_similarity (similarityCoefficient cfg) t (normalize_text cfg fieldText)"

definition is_fuzzy :: "config \<Rightarrow> string \<Rightarrow> string \<Rightarrow> bool" where
  "is_fuzzy cfg t fieldText = (fuzzyThreshold cfg \<le> fuzzy_similarity cfg t fieldText)"

text \<open>
  Modelled from the spec: the signal matcher (4.3), which "computes the strongest
  applicable signal" for one (term, fieldText) pair; a pair with no signal scores 0.
\<close>

definition match_signal :: "config \<Rightarrow> string \<Rightarrow> string \<Rightarrow> signal" where
  "match_signal cfg t fieldText =
     (if is_exact cfg t fieldText then Exact
      else if is_word_boundary cfg t fieldText then WordBoundary
      else if is_substring cfg t fieldText then Substring
      else if is_fuzzy cfg t fieldText then Fuzzy (fuzzy_similarity cfg t fieldText)
      else NoMatch)"

text \<open>
  Modelled from the spec: the score of a signal (3, 4.3): its base score, the Fuzzy one
  "scaled by the similarity value itself".
\<close>

fun signal_score :: "config \<Rightarrow> signal \<Rightarrow> rat" where
  "signal_score cfg Exact = exactScore cfg"
| "signal_score cfg WordBoundary = wordBoundaryScore cfg"
| "signal_score cfg Substring = substringScore cfg"
| "signal_score cfg (Fuzzy s) = fuzzyScore cfg * s"
| "signal_score cfg NoMatch = 0"

text \<open>All the signals that apply to a pair, strongest first.\<close>

definition applicable_signals :: "config \<Rightarrow> string \<Rightarrow> string \<Rightarrow> signal list" where
  "applicable_signals cfg t fieldText =
     (if is_exact cfg t fieldText then [Exact] else [])
     @ (if is_word_boundary cfg t fieldText then [WordBoundary] else [])
     @ (if is_substring cfg t fieldText then [Substring] else [])
     @ (if is_fuzzy cfg t fieldText then [Fuzzy (fuzzy_similarity cfg t fieldText)] else [])"

subsection \<open>Library items\<close>

record li_creator =
  cr_firstName :: string
  cr_lastName :: string
  cr_creatorType :: string

text \<open>
  Modelled from the spec: LibraryItem (3). The scalar metadata fields, the "extra" field
  among them, are optional strings keyed by field name; the timestamps are integers.
\<close>

record library_item =
  li_key :: string
  li_itemType :: string
  li_fields :: "string \<Rightarrow> string option"
  li_creators :: "li_creator list"
  li_tags :: "string list"
  li_collectionKeys :: "string list"
  li_dateAdded :: int
  li_dateModified :: int

subsection \<open>Citation-key resolver\<close>

text \<open>
  Modelled from the spec: the CitationKey cache (3), "item key to resolved citation key or
  absent": no entry, a cached key, or the cached "absent" sentinel. The secondary store
  is \<open>lookupKey(itemIdentifier)\<close> of 6, which may not be configured.
\<close>

type_synonym key_cache = "string \<Rightarrow> string option option"

type_synonym key_store = "string \<Rightarrow> string option"

fun lines_of :: "string \<Rightarrow> string \<Rightarrow> string list" where
  "lines_of cur [] = [cur]"
| "lines_of cur (c # cs) =
     (if c = CHR 0x0A then cur # lines_of [] cs else lines_of (cur @ [c]) cs)"

definition key_token :: "string \<Rightarrow> string option" where
  "key_token rest =
     (let tok = takeWhile (\<lambda>c. \<not> is_space c) (dropWhile is_space rest)
      in if tok = [] then None else Some tok)"

text \<open>
  Modelled from the spec: "a line matching (case-insensitively) Citation Key: or bibtex:
  followed by a key token" (4.6, step 2); the two markers are ASCII, and so is the
  folding of case that matches them.
\<close>

definition line_key :: "string \<Rightarrow> string option" where
  "line_key line =
     (let l = dropWhile is_space line in
      if starts_with ''citation key:'' (map to_lower l) then key_token (drop 13 l)
      else if starts_with ''bibtex:'' (map to_lower l) then key_token (drop 7 l)
      else None)"

fun first_some :: "('a \<Rightarrow> 'b option) \<Rightarrow> 'a list \<Rightarrow> 'b option" where
  "first_some f [] = None"
| "first_some f (x # xs) = (case f x of Some y \<Rightarrow> Some y | None \<Rightarrow> first_some f xs)"

text \<open>Modelled from the spec: parsing the "extra" field; "first match wins" (4.6).\<close>

definition parse_extra :: "string option \<Rightarrow> string option" where
  "parse_extra extra =
     (case extra of None \<Rightarrow> None | Some e \<Rightarrow> first_some line_key (lines_of [] e))"

text \<open>
  Modelled from the spec: the secondary store; "a resolver running with no secondary
  store configured behaves identically to one that queries it and finds nothing".
\<close>

definition lookupKey :: "key_store option \<Rightarrow> string \<Rightarrow> string option" where
  "lookupKey store ident = (case store of None \<Rightarrow> None | Some look \<Rightarrow> look ident)"

text \<open>
  Modelled from the spec: the resolver's state machine (4.6): the cache first; else the
  "extra" field; else the secondary store; else "absent"; each result is cached.
\<close>

definition resolve_citation_key ::
  "key_store option \<Rightarrow> key_cache \<Rightarrow> library_item \<Rightarrow> string option \<times> key_cache" where
  "resolve_citation_key store cache it =
     (case cache (li_key it) of
        Some cached \<Rightarrow> (cached, cache)
      | None \<Rightarrow>
          (case parse_extra (li_fields it ''extra'') of
             Some k \<Rightarrow> (Some k, cache(li_key it \<mapsto> Some k))
           | None \<Rightarrow>
               (case lookupKey store (li_key it) of
                  Some k \<Rightarrow> (Some k, cache(li_key it \<mapsto> Some k))
                | None \<Rightarrow> (None, cache(li_key it \<mapsto> None)))))"


subsection \<open>Field extractor\<close>

fun join_space :: "string list \<Rightarrow> string" where
  "join_space [] = []"
| "join_space [s] = s"
| "join_space (s # t # ss) = s @ '' '' @ join_space (t # ss)"

definition authors_text :: "library_item \<Rightarrow> string" where
  "authors_text it =
     join_space (map (\<lambda>c. cr_lastName c @ '' '' @ cr_firstName c) (li_creators it))"

text \<open>
  Modelled from the spec: the fields of 4.2 with their texts: the scalar fields, the
  authors "rendered as the concatenation of each creator's lastName firstName joined by
  spaces", the tags joined, and the citation key that the resolver gives.
\<close>

definition candidate_fields :: "library_item \<Rightarrow> string option \<Rightarrow> (string \<times> string option) list" where
  "candidate_fields it citationKey =
     [(''title'', li_fields it ''title''),
      (''abstractNote'', li_fields it ''abstractNote''),
      (''publicationTitle'', li_fields it ''publicationTitle''),
      (''DOI'', li_fields it ''DOI''),
      (''url'', li_fields it ''url''),
      (''year'', li_fields it ''year''),
      (''authors'', Some (authors_text it)),
      (''tags'', Some (join_space (li_tags it))),
      (''citationKey'', citationKey)]"

definition weighted_field :: "config \<Rightarrow> string \<times> string option \<Rightarrow> (string \<times> string \<times> rat) option" where
  "weighted_field cfg field =
     (case field of
        (name, None) \<Rightarrow> None
      | (name, Some t) \<Rightarrow> if t = [] then None else Some (name, t, fieldWeight cfg name))"

text \<open>
  Modelled from the spec: the field extractor (4.2): the (fieldName, fieldText, weight)
  tuples of an item; "fields with null/empty text are omitted".
\<close>

definition extract_fields ::
  "config \<Rightarrow> library_item \<Rightarrow> string option \<Rightarrow> (string \<times> string \<times> rat) list" where
  "extract_fields cfg it citationKey =
     List.map_filter (weighted_field cfg) (candidate_fields it citationKey)"

subsection \<open>Scorer\<close>

text \<open>
  Modelled from the spec: the scorer (4.4). A term's contribution from a field is
  \<open>signalScore \<times> fieldWeight\<close>; its total contribution is the sum across all fields;
  the raw score is the sum of all terms' contributions.
\<close>

definition field_contribution :: "config \<Rightarrow> string \<Rightarrow> string \<times> string \<times> rat \<Rightarrow> rat" where
  "field_contribution cfg t field =
     (case field of (name, ft, weight) \<Rightarrow> signal_score cfg (match_signal cfg t ft) * weight)"

definition contribution :: "config \<Rightarrow> (string \<times> string \<times> rat) list \<Rightarrow> string \<Rightarrow> rat" where
  "contribution cfg flds t = sum_list (map (field_contribution cfg t) flds)"

definition raw_score :: "config \<Rightarrow> (string \<times> string \<times> rat) list \<Rightarrow> string list \<Rightarrow> rat" where
  "raw_score cfg flds terms = sum_list (map (contribution cfg flds) terms)"

definition every_term_matched :: "config \<Rightarrow> (string \<times> string \<times> rat) list \<Rightarrow> string list \<Rightarrow> bool" where
  "every_term_matched cfg flds terms = list_all (\<lambda>t. contribution cfg flds t \<noteq> 0) terms"


text \<open>
  Modelled from the spec: the AND-bonus (4.4): "if every term in the query produced a
  nonzero contribution, apply a multiplicative AND-bonus to the raw score; if any term
  matched nowhere, no bonus".
\<close>

definition item_score :: "config \<Rightarrow> (string \<times> string \<times> rat) list \<Rightarrow> string list \<Rightarrow> rat" where
  "item_score cfg flds terms =
     (if every_term_matched cfg flds terms
      then raw_score cfg flds terms * andBonus cfg
      else raw_score cfg flds terms)"

definition matched_fields :: "config \<Rightarrow> (string \<times> string \<times> rat) list \<Rightarrow> string list \<Rightarrow> string list" where
  "matched_fields cfg flds terms =
     map fst (filter (\<lambda>field. list_ex (\<lambda>t. field_contribution cfg t field \<noteq> 0) terms) flds)"

text \<open>Modelled from the spec: ScoredResult (3).\<close>

record scored_result =
  res_item :: library_item
  res_score :: rat
  res_matchedFields :: "string list"

text \<open>
  Modelled from the spec: scoring one item: its citation key is resolved (through the
  cache, which is handed on), its fields are extracted and scored.
\<close>

definition score_item ::
  "config \<Rightarrow> key_store option \<Rightarrow> string list \<Rightarrow> key_cache \<Rightarrow> library_item
     \<Rightarrow> scored_result \<times> key_cache" where
  "score_item cfg store terms cache it =
     (let (citationKey, cache') = resolve_citation_key store cache it;
          flds = extract_fields cfg it citationKey
      in (\<lparr> res_item = it, res_score = item_score cfg flds terms,
             res_matchedFields = matched_fields cfg flds terms \<rparr>, cache'))"

text \<open>
  Modelled from the spec: scoring the candidate items in turn; "score 0 implies drop,
  never emit a zero-score result" (4.4).
\<close>

fun score_items ::
  "config \<Rightarrow> key_store option \<Rightarrow> string list \<Rightarrow> key_cache \<Rightarrow> library_item list
     \<Rightarrow> scored_result list \<times> key_cache" where
  "score_items cfg store terms cache [] = ([], cache)"
| "score_items cfg store terms cache (it # its) =
     (let (r, cache1) = score_item cfg store terms cache it;
          (rs, cache2) = score_items cfg store terms cache1 its
      in (if res_score r = 0 then rs else r # rs, cache2))"

subsection \<open>Ranker\<close>

text \<open>
  Modelled from the spec: the order of the ranker (4.5): "by score descending; ties
  broken by dateAdded descending, then by key ascending".
\<close>

definition ranks_before :: "scored_result \<Rightarrow> scored_result \<Rightarrow> bool" where
  "ranks_before a b =
     (res_score a > res_score b
      \<or> (res_score a = res_score b
          \<and> (li_dateAdded (res_item a) > li_dateAdded (res_item b)
              \<or> (li_dateAdded (res_item a) = li_dateAdded (res_item b)
                  \<and> li_key (res_item a) < li_key (res_item b)))))"

text \<open>Modelled from the spec: the sort of the ranker (4.5), by insertion.\<close>

fun insert_ranked :: "scored_result \<Rightarrow> scored_result list \<Rightarrow> scored_result list" where
  "insert_ranked r [] = [r]"
| "insert_ranked r (x # xs) =
     (if ranks_before x r then x # insert_ranked r xs else r # x # xs)"

definition rank :: "scored_result list \<Rightarrow> scored_result list" where
  "rank rs = foldr insert_ranked rs []"

text \<open>
  Modelled from the spec: the limit (4.5): "limit at most 0 is clamped to a minimum of
  1; absent limit defaults to 50".
\<close>

definition clamp_limit :: "int option \<Rightarrow> nat" where
  "clamp_limit limit = (case limit of None \<Rightarrow> 50 | Some n \<Rightarrow> if n \<le> 0 then 1 else nat n)"

record search_output =
  out_query :: string
  out_total :: nat
  out_items :: "scored_result list"

text \<open>
  Modelled from the spec: one search (2, 4.5, 6): tokenizer, then extractor, matcher
  and scorer per item, then the ranker; \<open>total\<close> counts the surviving items before the
  truncation. The citation-key cache is an explicit context (9): it goes in, and comes
  out with the keys resolved on the way.
\<close>

definition search ::
  "config \<Rightarrow> key_store option \<Rightarrow> key_cache \<Rightarrow> string \<Rightarrow> int option \<Rightarrow> library_item list
     \<Rightarrow> query_error + (search_output \<times> key_cache)" where
  "search cfg store cache query limit items =
     (case tokenize cfg query of
        Inl e \<Rightarrow> Inl e
      | Inr terms \<Rightarrow>
          let (scored, cache') = score_items cfg store terms cache items;
              ranked = rank scored
          in Inr (\<lparr> out_query = query, out_total = length ranked,
                     out_items = take (clamp_limit limit) ranked \<rparr>, cache'))"

text \<open>The cache that a search leaves behind, for the next search.\<close>

definition cache_after ::
  "key_cache \<Rightarrow> query_error + (search_output \<times> key_cache) \<Rightarrow> key_cache" where
  "cache_after cache res = (case res of Inl e \<Rightarrow> cache | Inr (out, cache') \<Rightarrow> cache')"

text \<open>The sort key that \<open>ranks_before\<close> compares, and the key of a result's item.\<close>

definition rank_key :: "scored_result \<Rightarrow> rat \<times> int \<times> string" where
  "rank_key r = (- res_score r, - li_dateAdded (res_item r), li_key (res_item r))"

definition result_key :: "scored_result \<Rightarrow> string" where
  "result_key r = li_key (res_item r)"

subsection \<open>A small library, for evaluating the ranking core\<close>

definition lib_item :: "string \<Rightarrow> string \<Rightarrow> string option \<Rightarrow> int \<Rightarrow> library_item" where
  "lib_item k title extra added =
     \<lparr> li_key = k, li_itemType = ''journalArticle'',
       li_fields = (\<lambda>f. if f = ''title'' then Some title else if f = ''extra'' then extra else None),
       li_creators = [\<lparr> cr_firstName = ''Ada'', cr_lastName = ''Smith'', cr_creatorType = ''author'' \<rparr>],
       li_tags = [], li_collectionKeys = [], li_dateAdded = added, li_dateModified = added \<rparr>"

definition ex_cited :: library_item where
  "ex_cited = lib_item ''K1'' ''Neural Radiance Fields for View Synthesis''
                (Some ''Citation Key: ABC123'') 10"

definition ex_library :: "library_item list" where
  "ex_library =
     [ex_cited,
      lib_item ''K2'' ''Radiance transfer'' None 20,
      lib_item ''K3'' ''Neural networks'' (Some ''note\<newline>bibtex: nn2020 x'') 30,
      lib_item ''K4'' ''Cooking'' None 40]"

definition ex_store :: key_store where
  "ex_store k = (if k = ''K1'' then Some ''XYZ999'' else if k = ''K2'' then Some ''rt1999'' else None)"

definition ex_first :: scored_result where
  "ex_first = \<lparr> res_item = lib_item ''K3'' ''Neural networks'' None 30, res_score = 225,
                 res_matchedFields = [''title''] \<rparr>"

definition ex_second :: scored_result where
  "ex_second = \<lparr> res_item = lib_item ''K2'' ''Radiance transfer'' None 20, res_score = 225,
                  res_matchedFields = [''title''] \<rparr>"

definition ex_third :: scored_result where
  "ex_third = \<lparr> res_item = lib_item ''K4'' ''Cooking'' None 40, res_score = 150,
                 res_matchedFields = [''authors''] \<rparr>"

section \<open>Properties of the bridge plugin\<close>

subsection \<open>The search command\<close>

lemma nonempty_string_iff: "nonempty_string q \<longleftrightarrow> truthy q \<and> is_string q"
  by (cases q) (simp_all add: nonempty_string_def)

lemma limit_converts_iff:
  "limit_converts z limit \<longleftrightarrow>
     to_integer z (if limit = JUndefined then JNum 50 else limit) = Inr (effective_limit z limit)"
  by (cases "to_integer z (if limit = JUndefined then JNum 50 else limit)")
    (simp_all add: limit_converts_def effective_limit_def)

lemma collect_error:
  assumes "collect rs = Inl e"
  shows "Inl e \<in> set rs"
  using assms
proof (induction rs)
  case Nil
  then show ?case by simp
next
  case (Cons r rs)
  then show ?case
    by (cases r; cases "collect rs") auto
qed

lemma js_to_string_error: "js_to_string z v = Inl e \<Longrightarrow> e = TypeError"
proof (induction z v arbitrary: e rule: js_to_string.induct)
  case (6 z xs)
  from "6.prems" have "collect (map (\<lambda>x. if x = JNull \<or> x = JUndefined then Inr []
      else js_to_string z x) xs) = Inl e"
    by (cases "collect (map (\<lambda>x. if x = JNull \<or> x = JUndefined then Inr []
      else js_to_string z x) xs)") simp_all
  from collect_error [OF this] obtain x where "x \<in> set xs"
    and "(if x = JNull \<or> x = JUndefined then Inr [] else js_to_string z x) = Inl e"
    by auto
  then show ?case
    using "6.IH" [of x e] by (auto split: if_splits)
qed (auto split: if_splits)

lemma to_integer_error: "to_integer z v = Inl e \<Longrightarrow> e = TypeError"
proof (cases v)
  case (JArr xs)
  assume "to_integer z v = Inl e"
  with JArr have "js_to_string z (JArr xs) = Inl e"
    by (cases "js_to_string z (JArr xs)") (simp_all del: js_to_string.simps)
  then show ?thesis by (rule js_to_string_error)
next
  case (JObj ps)
  assume "to_integer z v = Inl e"
  with JObj have "js_to_string z (JObj ps) = Inl e"
    by (cases "js_to_string z (JObj ps)") (simp_all del: js_to_string.simps)
  then show ?thesis by (rule js_to_string_error)
qed auto

lemma isl_collect: "isl (collect rs) \<longleftrightarrow> (\<exists>r \<in> set rs. isl r)"
proof (induction rs)
  case Nil
  then show ?case by simp
next
  case (Cons r rs)
  then show ?case
    by (cases r; cases "collect rs") auto
qed

lemma isl_js_to_string: "isl (js_to_string z v) \<longleftrightarrow> \<not> converts v"
proof (induction z v rule: js_to_string.induct)
  case (6 z xs)
  have "isl (js_to_string z (JArr xs))
      \<longleftrightarrow> isl (collect (map (\<lambda>x. if x = JNull \<or> x = JUndefined then Inr []
                                  else js_to_string z x) xs))"
    by (cases "collect (map (\<lambda>x. if x = JNull \<or> x = JUndefined then Inr []
                                  else js_to_string z x) xs)") simp_all
  also have "\<dots> \<longleftrightarrow> (\<exists>x \<in> set xs. x \<noteq> JNull \<and> x \<noteq> JUndefined \<and> isl (js_to_string z x))"
    by (auto simp: isl_collect split: if_splits)
  also have "\<dots> \<longleftrightarrow> (\<exists>x \<in> set xs. x \<noteq> JNull \<and> x \<noteq> JUndefined \<and> \<not> converts x)"
    using "6.IH" by blast
  also have "\<dots> \<longleftrightarrow> \<not> converts (JArr xs)"
    by (auto simp: list_all_iff)
  finally show ?case .
qed simp_all

lemma js_to_string_converts:
  "converts v \<Longrightarrow> \<exists>s. js_to_string z v = Inr s"
  "\<not> converts v \<Longrightarrow> js_to_string z v = Inl TypeError"
proof -
  show "\<exists>s. js_to_string z v = Inr s" if "converts v"
    using that isl_js_to_string [of z v] by (cases "js_to_string z v") simp_all
  show "js_to_string z v = Inl TypeError" if "\<not> converts v"
  proof (cases "js_to_string z v")
    case (Inl e)
    with js_to_string_error [OF Inl] show ?thesis by simp
  next
    case (Inr s)
    with that isl_js_to_string [of z v] show ?thesis by simp
  qed
qed

lemma debug_one: "debug z [v] = (if converts v then None else Some TypeError)"
proof (cases "converts v")
  case True
  with js_to_string_converts(1) [of v z] show ?thesis
    by (auto simp: debug_def)
next
  case False
  with js_to_string_converts(2) [of v z] show ?thesis
    by (simp add: debug_def)
qed

lemma debug_error: "debug z vs = Some e \<Longrightarrow> e = TypeError"
proof -
  assume "debug z vs = Some e"
  then have "collect (map (js_to_string z) vs) = Inl e"
    by (cases "collect (map (js_to_string z) vs)") (simp_all add: debug_def)
  from collect_error [OF this] obtain v where "js_to_string z v = Inl e"
    by auto
  then show ?thesis by (rule js_to_string_error)
qed

lemma rpcError_about_code:
  "err_code (rpcError_about z code prefix v status)
     = (if converts v then Some code else None)"
  "response_status (rpcError_about z code prefix v status)
     = (if converts v \<and> status \<noteq> 0 then status else 500)"
proof -
  show "err_code (rpcError_about z code prefix v status)
     = (if converts v then Some code else None)"
    using js_to_string_converts [of v z]
    by (cases "converts v") (auto simp: rpcError_about_def rpcError_def)
  show "response_status (rpcError_about z code prefix v status)
     = (if converts v \<and> status \<noteq> 0 then status else 500)"
    using js_to_string_converts [of v z]
    by (cases "converts v") (auto simp: rpcError_about_def rpcError_def)
qed

lemma debug_all: "debug z vs = (if list_all converts vs then None else Some TypeError)"
proof (cases "collect (map (js_to_string z) vs)")
  case (Inl e)
  then have "isl (collect (map (js_to_string z) vs))" by simp
  then have "\<not> list_all converts vs"
    by (auto simp: isl_collect isl_js_to_string list_all_iff)
  moreover from Inl have "debug z vs = Some e" by (simp add: debug_def)
  moreover from this have "e = TypeError" by (rule debug_error)
  ultimately show ?thesis by simp
next
  case (Inr ss)
  then have "\<not> isl (collect (map (js_to_string z) vs))" by simp
  then have "list_all converts vs"
    by (auto simp: isl_collect isl_js_to_string list_all_iff)
  with Inr show ?thesis by (simp add: debug_def)
qed

lemma found_collection_key:
  "Collections_getByLibraryAndKey z lib k = Some c \<Longrightarrow> k = JStr (coll_key c)"
  by (auto simp: Collections_getByLibraryAndKey_def find_Some_iff)

lemma floor_five_halves: "\<lfloor>5 / 2 :: rat\<rfloor> = 2"
  by (rule floor_unique) simp_all

lemma limit_throws:
  assumes "\<not> limit_converts z limit"
  shows "to_integer z (if limit = JUndefined then JNum 50 else limit) = Inl TypeError"
proof -
  from assms obtain e
    where e: "to_integer z (if limit = JUndefined then JNum 50 else limit) = Inl e"
    by (cases "to_integer z (if limit = JUndefined then JNum 50 else limit)")
      (simp_all add: limit_converts_def)
  from to_integer_error [OF e] e show ?thesis by simp
qed

lemma js_truncate_of_int [simp]: "js_truncate (of_int n) = n"
  by (simp add: js_truncate_def)

lemma js_truncate_numeral [simp]:
  "js_truncate 0 = 0" "js_truncate 1 = 1" "js_truncate (numeral k) = numeral k"
  "js_truncate (- numeral k) = - numeral k" "js_truncate (- 1) = - 1"
  using js_truncate_of_int [of 0] js_truncate_of_int [of 1] js_truncate_of_int [of "numeral k"]
    js_truncate_of_int [of "- numeral k"] js_truncate_of_int [of "- 1"]
  by simp_all

lemma effective_limit_JNum [simp]: "effective_limit z (JNum q) = js_truncate q"
  by (simp add: effective_limit_def)

lemma limit_converts_simple [simp]:
  "limit_converts z JUndefined" "limit_converts z (JNum q)" "limit_converts z JNull"
  "limit_converts z (JBool b)" "limit_converts z (JStr s)"
  by (simp_all add: limit_converts_def)

lemma searchItems_Inr:
  "nonempty_string query \<Longrightarrow> limit_converts z limit \<Longrightarrow>
   searchItems z query limit libraryID =
     Inr \<lparr> sr_query = query, sr_total = length (kept_items z query limit libraryID),
           sr_items = map (serializeItem z) (kept_items z query limit libraryID) \<rparr>"
  by (simp add: searchItems_def Let_def kept_items_def regular_among_def search_hits_def
      limit_converts_iff nonempty_string_iff)

lemma searchItems_Inl:
  "\<not> nonempty_string query \<Longrightarrow>
   searchItems z query limit libraryID =
     Inl (RpcError ''INVALID_PARAMS'' ''Search query is required'' 400)"
  by (auto simp add: searchItems_def Let_def rpcError_def nonempty_string_iff)

lemma searchItems_throws:
  "nonempty_string query \<Longrightarrow> \<not> limit_converts z limit \<Longrightarrow>
   searchItems z query limit libraryID = Inl TypeError"
  by (simp add: searchItems_def Let_def limit_throws nonempty_string_iff)

lemma searchItems_Inr_D:
  assumes "searchItems z query limit libraryID = Inr r"
  shows "nonempty_string query"
    and "limit_converts z limit"
    and "r = \<lparr> sr_query = query, sr_total = length (kept_items z query limit libraryID),
               sr_items = map (serializeItem z) (kept_items z query limit libraryID) \<rparr>"
proof -
  show ne: "nonempty_string query"
  proof (rule ccontr)
    assume "\<not> nonempty_string query"
    from searchItems_Inl [OF this] assms show False by simp
  qed
  show conv: "limit_converts z limit"
  proof (rule ccontr)
    assume "\<not> limit_converts z limit"
    from searchItems_throws [OF ne this] assms show False by simp
  qed
  from searchItems_Inr [OF ne conv, of libraryID] assms
  show "r = \<lparr> sr_query = query, sr_total = length (kept_items z query limit libraryID),
              sr_items = map (serializeItem z) (kept_items z query limit libraryID) \<rparr>"
    by simp
qed

lemma slice0_take: "\<exists>n. slice0 xs e = take n xs"
  by (auto simp: slice0_def)

lemma length_slice0: "0 \<le> e \<Longrightarrow> length (slice0 xs e) \<le> nat e"
  by (simp add: slice0_def)

lemma Items_get_append: "Items_get z (xs @ ys) = Items_get z xs @ Items_get z ys"
  by (simp add: Items_get_def List.map_filter_def)

lemma length_Items_get: "length (Items_get z ids) \<le> length ids"
  by (simp add: Items_get_def List.map_filter_def)

lemma length_regular_among_take:
  "length (regular_among z (take n ids)) \<le> length (regular_among z ids)"
proof -
  have "Items_get z ids = Items_get z (take n ids) @ Items_get z (drop n ids)"
    by (simp flip: Items_get_append)
  then have "regular_among z ids = regular_among z (take n ids) @ regular_among z (drop n ids)"
    unfolding regular_among_def by (metis filter_append)
  then show ?thesis by simp
qed

lemma kept_le_all:
  "length (kept_items z query limit libraryID) \<le> length (all_matches z query libraryID)"
proof -
  obtain n where "slice0 (search_hits z query libraryID) (effective_limit z limit)
      = take n (search_hits z query libraryID)"
    using slice0_take by blast
  then show ?thesis
    by (simp add: kept_items_def all_matches_def length_regular_among_take)
qed

lemma kept_le_limit:
  assumes "0 \<le> effective_limit z limit"
  shows "length (kept_items z query limit libraryID) \<le> nat (effective_limit z limit)"
proof -
  have "length (kept_items z query limit libraryID)
      \<le> length (Items_get z (slice0 (search_hits z query libraryID) (effective_limit z limit)))"
    by (simp add: kept_items_def regular_among_def)
  also have "\<dots> \<le> length (slice0 (search_hits z query libraryID) (effective_limit z limit))"
    by (rule length_Items_get)
  also have "\<dots> \<le> nat (effective_limit z limit)"
    using assms by (rule length_slice0)
  finally show ?thesis .
qed

lemma ex_search_2: "searchItems ex_host (JStr ''paper'') (JNum 2) JUndefined = Inr ex_result"
  by code_simp

text \<open>
  C1, as the code has it. The reported \<open>total\<close> is the number of items returned: the
  regular items among the hits that survive the truncation. It is counted after the
  truncation, so it never exceeds the number of all regular matches, and for a limit
  that is not negative the number of items returned is \<open>min total limit\<close>.
\<close>

theorem searchItems_total_is_returned_count:
  assumes "searchItems z query limit libraryID = Inr r"
  shows "sr_total r = length (sr_items r)
       \<and> sr_total r = length (kept_items z query limit libraryID)
       \<and> sr_total r \<le> length (all_matches z query libraryID)
       \<and> (0 \<le> effective_limit z limit \<longrightarrow>
            length (sr_items r) = min (sr_total r) (nat (effective_limit z limit)))"
proof -
  from searchItems_Inr_D(3) [OF assms]
  have total: "sr_total r = length (kept_items z query limit libraryID)"
    and items: "length (sr_items r) = length (kept_items z query limit libraryID)"
    by simp_all
  show ?thesis
    using total items kept_le_all [of z query limit libraryID]
      kept_le_limit [of z limit query libraryID]
    by auto
qed

theorem searchItems_total_is_returned_count_witness:
  "searchItems ex_host (JStr ''paper'') (JNum 2) JUndefined = Inr ex_result
   \<and> sr_total ex_result = length (sr_items ex_result)
   \<and> sr_total ex_result \<le> length (all_matches ex_host (JStr ''paper'') JUndefined)
   \<and> 0 \<le> effective_limit ex_host (JNum 2)
   \<and> length (sr_items ex_result) = min (sr_total ex_result) (nat (effective_limit ex_host (JNum 2)))"
proof -
  have lim: "0 \<le> effective_limit ex_host (JNum 2)"
    by (simp add: effective_limit_def)
  from searchItems_total_is_returned_count [OF ex_search_2] lim ex_search_2
  show ?thesis by blast
qed

text \<open>
  C1 as the claim states it fails: with four hits of which three are regular items and
  a limit of 2, the count of all matches before truncation is 3, but the reported total
  is 1 and one item is returned (not \<open>min 3 2\<close>).
\<close>

theorem searchItems_total_counterexample:
  "reported_total (searchItems ex_host (JStr ''paper'') (JNum 2) JUndefined) = Some 1
   \<and> returned_count (searchItems ex_host (JStr ''paper'') (JNum 2) JUndefined) = Some 1
   \<and> length (all_matches ex_host (JStr ''paper'') JUndefined) = 3"
  by code_simp

text \<open>
  C8: the items returned are the serialized regular items among the truncated hits,
  none of them a note or an attachment, and \<open>total\<close> counts exactly these.
\<close>

theorem searchItems_only_regular:
  assumes "searchItems z query limit libraryID = Inr r"
  shows "sr_items r = map (serializeItem z) (kept_items z query limit libraryID)
       \<and> sr_total r = length (kept_items z query limit libraryID)
       \<and> (\<forall>it \<in> set (kept_items z query limit libraryID).
            isRegularItem it \<and> \<not> isNote it \<and> \<not> isAttachment it)"
proof -
  from searchItems_Inr_D(3) [OF assms]
  have "sr_items r = map (serializeItem z) (kept_items z query limit libraryID)"
    and "sr_total r = length (kept_items z query limit libraryID)"
    by simp_all
  moreover have "\<forall>it \<in> set (kept_items z query limit libraryID).
      isRegularItem it \<and> \<not> isNote it \<and> \<not> isAttachment it"
    by (auto simp: kept_items_def regular_among_def isRegularItem_def isNote_def isAttachment_def)
  ultimately show ?thesis by simp
qed

theorem searchItems_only_regular_witness:
  "searchItems ex_host (JStr ''paper'') (JNum 4) JUndefined
     = Inr \<lparr> sr_query = JStr ''paper'', sr_total = 3,
             sr_items = map (serializeItem ex_host)
               [ex_item 11 ''AAAA1111'' Regular, ex_item 13 ''CCCC3333'' Regular,
                ex_item 14 ''DDDD4444'' Regular] \<rparr>
   \<and> kept_items ex_host (JStr ''paper'') (JNum 4) JUndefined
     = [ex_item 11 ''AAAA1111'' Regular, ex_item 13 ''CCCC3333'' Regular,
        ex_item 14 ''DDDD4444'' Regular]
   \<and> list_all isRegularItem (kept_items ex_host (JStr ''paper'') (JNum 4) JUndefined)"
proof -
  have run: "searchItems ex_host (JStr ''paper'') (JNum 4) JUndefined
     = Inr \<lparr> sr_query = JStr ''paper'', sr_total = 3,
             sr_items = map (serializeItem ex_host)
               [ex_item 11 ''AAAA1111'' Regular, ex_item 13 ''CCCC3333'' Regular,
                ex_item 14 ''DDDD4444'' Regular] \<rparr>"
    by code_simp
  have kept: "kept_items ex_host (JStr ''paper'') (JNum 4) JUndefined
     = [ex_item 11 ''AAAA1111'' Regular, ex_item 13 ''CCCC3333'' Regular,
        ex_item 14 ''DDDD4444'' Regular]"
    by (simp add: kept_items_def regular_among_def search_hits_def effective_limit_def
        slice0_def libID_of_def js_or_def ex_host_def Items_get_def List.map_filter_simps
        ex_item_def isRegularItem_def)
  from searchItems_only_regular [OF run]
  have "\<forall>it \<in> set (kept_items ex_host (JStr ''paper'') (JNum 4) JUndefined). isRegularItem it"
    by simp
  then have "list_all isRegularItem (kept_items ex_host (JStr ''paper'') (JNum 4) JUndefined)"
    by (simp add: list_all_iff)
  with run kept show ?thesis by simp
qed

lemma slice0_neg: "n < 0 \<Longrightarrow> slice0 xs n = take (length xs - nat (- n)) xs"
  by (auto simp: slice0_def nat_diff_distrib' intro: arg_cong [where f = "\<lambda>k. take k xs"])

text \<open>
  C2, as the code has it. An absent limit is 50. A limit that is zero or negative is not
  clamped: it is handed to \<^verbatim>\<open>slice\<close> as it is, which never fails; a limit of 0
  returns no item, and a negative limit \<open>n\<close> cuts the last \<open>- n\<close> hits off. A limit
  with a fractional part counts as the integer it truncates to.
\<close>

theorem searchItems_limit_is_slice_end:
  assumes "nonempty_string query"
  shows "searchItems z query JUndefined libraryID = searchItems z query (JNum 50) libraryID
       \<and> (n < 0 \<longrightarrow> searchItems z query (JNum (of_int n)) libraryID =
            (let kept = regular_among z
                          (take (length (search_hits z query libraryID) - nat (- n))
                                (search_hits z query libraryID))
             in Inr \<lparr> sr_query = query, sr_total = length kept,
                      sr_items = map (serializeItem z) kept \<rparr>))
       \<and> searchItems z query (JNum 0) libraryID =
            Inr \<lparr> sr_query = query, sr_total = 0, sr_items = [] \<rparr>
       \<and> searchItems z query (JNum q) libraryID
           = searchItems z query (JNum (of_int (js_truncate q))) libraryID"
proof -
  have default: "searchItems z query JUndefined libraryID = searchItems z query (JNum 50) libraryID"
    by (simp add: searchItems_def)
  have kept: "kept_items z query (JNum (of_int n)) libraryID =
      regular_among z (take (length (search_hits z query libraryID) - nat (- n))
                            (search_hits z query libraryID))" if "n < 0"
    using that by (simp add: kept_items_def slice0_neg)
  have neg: "n < 0 \<longrightarrow> searchItems z query (JNum (of_int n)) libraryID =
            (let kept = regular_among z
                          (take (length (search_hits z query libraryID) - nat (- n))
                                (search_hits z query libraryID))
             in Inr \<lparr> sr_query = query, sr_total = length kept,
                      sr_items = map (serializeItem z) kept \<rparr>)"
    using assms by (simp add: searchItems_Inr kept Let_def)
  have "kept_items z query (JNum 0) libraryID = []"
    by (simp add: kept_items_def slice0_def regular_among_def Items_get_def
        List.map_filter_simps)
  then have zero: "searchItems z query (JNum 0) libraryID =
            Inr \<lparr> sr_query = query, sr_total = 0, sr_items = [] \<rparr>"
    using assms by (simp add: searchItems_Inr)
  have "kept_items z query (JNum q) libraryID
      = kept_items z query (JNum (of_int (js_truncate q))) libraryID"
    by (simp add: kept_items_def)
  then have frac: "searchItems z query (JNum q) libraryID
      = searchItems z query (JNum (of_int (js_truncate q))) libraryID"
    using assms by (simp add: searchItems_Inr)
  from default neg zero frac show ?thesis by blast
qed

lemma ex_hits: "search_hits ex_host (JStr q) JUndefined = [11, 12, 13, 14]"
  by (simp add: search_hits_def ex_host_def libID_of_def js_or_def)

lemma ex_regular_among_3:
  "regular_among ex_host [11, 12, 13]
     = [ex_item 11 ''AAAA1111'' Regular, ex_item 13 ''CCCC3333'' Regular]"
  by (simp add: regular_among_def ex_host_def Items_get_def List.map_filter_simps
      ex_item_def isRegularItem_def)

theorem searchItems_limit_is_slice_end_witness:
  "nonempty_string (JStr ''paper'') \<and> (- 1 :: int) < 0
   \<and> searchItems ex_host (JStr ''paper'') JUndefined JUndefined
       = searchItems ex_host (JStr ''paper'') (JNum 50) JUndefined
   \<and> searchItems ex_host (JStr ''paper'') (JNum (- 1)) JUndefined
       = Inr \<lparr> sr_query = JStr ''paper'', sr_total = 2,
               sr_items = map (serializeItem ex_host)
                 [ex_item 11 ''AAAA1111'' Regular, ex_item 13 ''CCCC3333'' Regular] \<rparr>
   \<and> searchItems ex_host (JStr ''paper'') (JNum 0) JUndefined
       = Inr \<lparr> sr_query = JStr ''paper'', sr_total = 0, sr_items = [] \<rparr>
   \<and> searchItems ex_host (JStr ''paper'') (JNum (5 / 2)) JUndefined
       = searchItems ex_host (JStr ''paper'') (JNum 2) JUndefined"
proof -
  have ne: "nonempty_string (JStr ''paper'')"
    by (simp add: nonempty_string_def)
  have cut: "take (length [11, 12, 13, 14 :: nat] - nat (- (- 1))) [11, 12, 13, 14 :: nat] = [11, 12, 13]"
    by simp
  have tr: "js_truncate (5 / 2) = 2"
    by (simp add: js_truncate_def floor_five_halves)
  from searchItems_limit_is_slice_end [OF ne, of ex_host JUndefined "- 1" "5 / 2"]
  show ?thesis
    using ne by (simp add: ex_hits ex_regular_among_3 cut tr del: take_Cons_numeral)
qed

text \<open>
  C2 as the claim states it fails: a limit of 0 is not raised to 1 (nor to the default):
  the search returns nothing where a limit of 1 returns one item and the default three;
  a limit of -1 returns two items.
\<close>

theorem searchItems_limit_clamp_counterexample:
  "returned_count (searchItems ex_host (JStr ''paper'') (JNum 0) JUndefined) = Some 0
   \<and> returned_count (searchItems ex_host (JStr ''paper'') (JNum 1) JUndefined) = Some 1
   \<and> returned_count (searchItems ex_host (JStr ''paper'') JUndefined JUndefined) = Some 3
   \<and> returned_count (searchItems ex_host (JStr ''paper'') (JNum (- 1)) JUndefined) = Some 2"
  by code_simp

text \<open>
  C3, as the code has it. The search is refused, with \<^verbatim>\<open>INVALID_PARAMS\<close> and status
  400 and before the host is searched, exactly when the query is not a non-empty string;
  the text is not trimmed, and every non-empty string is searched for. (The search
  then returns its result, unless the limit is an object or an array that
  \<^verbatim>\<open>slice\<close> cannot convert to a number, which throws a TypeError; an absent limit,
  a number, a string, a boolean and \<^verbatim>\<open>null\<close> all convert.)
\<close>

theorem searchItems_query_check:
  "searchItems z query limit libraryID =
     (if nonempty_string query
      then (if limit_converts z limit
            then Inr \<lparr> sr_query = query,
                       sr_total = length (kept_items z query limit libraryID),
                       sr_items = map (serializeItem z) (kept_items z query limit libraryID) \<rparr>
            else Inl TypeError)
      else Inl (rpcError ''INVALID_PARAMS'' ''Search query is required'' 400))
   \<and> (raised_code (searchItems z query limit libraryID) = Some ''INVALID_PARAMS'')
       = (\<not> nonempty_string query)
   \<and> limit_converts z JUndefined \<and> limit_converts z (JNum q) \<and> limit_converts z (JStr s)
   \<and> limit_converts z (JBool b) \<and> limit_converts z JNull"
  by (simp add: searchItems_Inr searchItems_Inl searchItems_throws rpcError_def raised_code_def)

theorem searchItems_query_check_witness:
  "searchItems ex_host (JStr []) JUndefined JUndefined
     = Inl (rpcError ''INVALID_PARAMS'' ''Search query is required'' 400)
   \<and> searchItems ex_host JUndefined JUndefined JUndefined
     = Inl (rpcError ''INVALID_PARAMS'' ''Search query is required'' 400)
   \<and> response_status (rpcError ''INVALID_PARAMS'' ''Search query is required'' 400) = 400
   \<and> searchItems ex_host (JStr ''paper'') (JNum 2) JUndefined = Inr ex_result
   \<and> \<not> limit_converts ex_host (JObj [(''toString'', JNum 1)])
   \<and> searchItems ex_host (JStr ''paper'') (JObj [(''toString'', JNum 1)]) JUndefined
       = Inl TypeError"
proof -
  have nc: "\<not> limit_converts ex_host (JObj [(''toString'', JNum 1)])"
    by (simp add: limit_converts_def)
  from searchItems_query_check [of ex_host "JStr []" JUndefined JUndefined]
    searchItems_query_check [of ex_host JUndefined JUndefined JUndefined]
    searchItems_query_check [of ex_host "JStr ''paper''" "JObj [(''toString'', JNum 1)]" JUndefined]
    ex_search_2 nc
  show ?thesis
    by (simp add: nonempty_string_def rpcError_def)
qed

text \<open>
  C3 as the claim states it fails: a query of three spaces is empty after trimming, yet
  it is accepted and searched for.
\<close>

theorem searchItems_blank_query_counterexample:
  "blank ''   ''
   \<and> searchItems ex_host (JStr ''   '') JUndefined JUndefined
     = Inr \<lparr> sr_query = JStr ''   '', sr_total = 3,
             sr_items = map (serializeItem ex_host)
               [ex_item 11 ''AAAA1111'' Regular, ex_item 13 ''CCCC3333'' Regular,
                ex_item 14 ''DDDD4444'' Regular] \<rparr>"
  by code_simp

subsection \<open>Adding items to a collection\<close>

lemma add_outcome_cong:
  "z_items z' = z_items z \<Longrightarrow> write_failure z' = write_failure z
   \<Longrightarrow> add_outcome z' libID k = add_outcome z libID k"
  by (simp add: add_outcome_def Items_getByLibraryAndKey_def split: option.splits)

lemma addItem_frame:
  "addItem z cid iid = Inr z' \<Longrightarrow> z_items z' = z_items z \<and> write_failure z' = write_failure z"
  by (auto simp: addItem_def split: option.splits)

lemma add_loop_result:
  "add_loop z libID cid ks added errors = (z', added', errors') \<Longrightarrow>
     added' = added @ filter (\<lambda>k. add_outcome z libID k = None) ks
   \<and> errors' = errors @ map (error_of z libID) (filter (\<lambda>k. add_outcome z libID k \<noteq> None) ks)
   \<and> z_items z' = z_items z \<and> write_failure z' = write_failure z"
proof (induction ks arbitrary: z added errors)
  case Nil
  then show ?case by simp
next
  case (Cons k ks)
  show ?case
  proof (cases "Items_getByLibraryAndKey z libID k")
    case None
    then have out: "add_outcome z libID k = Some ''Item not found''"
      by (simp add: add_outcome_def)
    from Cons.prems None
    have "add_loop z libID cid ks added
            (errors @ [\<lparr> ke_key = k, ke_error = ''Item not found'' \<rparr>]) = (z', added', errors')"
      by simp
    from Cons.IH [OF this] out show ?thesis
      by (simp add: error_of_def)
  next
    case (Some it)
    show ?thesis
    proof (cases "isNote it \<or> isAttachment it")
      case True
      with Some have out: "add_outcome z libID k = Some ''Cannot add notes or attachments directly''"
        by (simp add: add_outcome_def)
      from Cons.prems Some True
      have "add_loop z libID cid ks added
              (errors @ [\<lparr> ke_key = k, ke_error = ''Cannot add notes or attachments directly'' \<rparr>])
            = (z', added', errors')"
        by simp
      from Cons.IH [OF this] out show ?thesis
        by (simp add: error_of_def)
    next
      case False
      with Some have out: "add_outcome z libID k = write_failure z (item_id it)"
        by (simp add: add_outcome_def)
      show ?thesis
      proof (cases "addItem z cid (item_id it)")
        case (Inl msg)
        then have wf: "write_failure z (item_id it) = Some msg"
          by (auto simp: addItem_def split: option.splits)
        from Cons.prems Some False Inl
        have "add_loop z libID cid ks added (errors @ [\<lparr> ke_key = k, ke_error = msg \<rparr>])
              = (z', added', errors')"
          by simp
        from Cons.IH [OF this] out wf show ?thesis
          by (simp add: error_of_def)
      next
        case (Inr z1)
        then have wf: "write_failure z (item_id it) = None"
          by (auto simp: addItem_def split: option.splits)
        from addItem_frame [OF Inr]
        have same: "add_outcome z1 libID = add_outcome z libID"
          by (intro ext add_outcome_cong) simp_all
        from Cons.prems Some False Inr
        have "add_loop z1 libID cid ks (added @ [k]) errors = (z', added', errors')"
          by simp
        from Cons.IH [OF this] out wf same addItem_frame [OF Inr] show ?thesis
          by (simp add: error_of_def)
      qed
    qed
  qed
qed

lemma addToCollection_found:
  assumes "truthy collectionKey" and "ks \<noteq> []"
    and "Collections_getByLibraryAndKey z (libID_of z libraryID) collectionKey = Some c"
  shows "\<not> isl (addToCollection z collectionKey (JArr ks) libraryID)"
    and "added_keys (addToCollection z collectionKey (JArr ks) libraryID)
           = filter (\<lambda>k. add_outcome z (libID_of z libraryID) k = None) ks"
    and "error_entries (addToCollection z collectionKey (JArr ks) libraryID)
           = map (error_of z (libID_of z libraryID))
               (filter (\<lambda>k. add_outcome z (libID_of z libraryID) k \<noteq> None) ks)"
proof -
  obtain z' added errors
    where loop: "add_loop z (libID_of z libraryID) (coll_id c) ks [] [] = (z', added, errors)"
    by (metis prod_cases3)
  from add_loop_result [OF loop]
  have added: "added = filter (\<lambda>k. add_outcome z (libID_of z libraryID) k = None) ks"
    and errors: "errors = map (error_of z (libID_of z libraryID))
        (filter (\<lambda>k. add_outcome z (libID_of z libraryID) k \<noteq> None) ks)"
    by simp_all
  have run: "addToCollection z collectionKey (JArr ks) libraryID
      = Inr (\<lparr> ar_collectionKey = collectionKey, ar_added = added,
                ar_errors = (if length errors > 0 then Some errors else None) \<rparr>, z')"
    using assms loop found_collection_key [OF assms(3)]
    by (simp add: addToCollection_def Let_def debug_all)
  show "\<not> isl (addToCollection z collectionKey (JArr ks) libraryID)"
    by (simp add: run)
  show "added_keys (addToCollection z collectionKey (JArr ks) libraryID)
           = filter (\<lambda>k. add_outcome z (libID_of z libraryID) k = None) ks"
    by (simp add: run added_keys_def added)
  show "error_entries (addToCollection z collectionKey (JArr ks) libraryID)
           = map (error_of z (libID_of z libraryID))
               (filter (\<lambda>k. add_outcome z (libID_of z libraryID) k \<noteq> None) ks)"
  proof -
    have "error_entries (addToCollection z collectionKey (JArr ks) libraryID) = errors"
      by (cases errors) (simp_all add: run error_entries_def)
    with errors show ?thesis by simp
  qed
qed

lemma mset_filter_split: "mset (filter P xs) + mset (filter (\<lambda>x. \<not> P x) xs) = mset xs"
  by (induction xs) simp_all

text \<open>
  C9: when the collection is found and \<^verbatim>\<open>itemKeys\<close> is a non-empty array, the request
  succeeds whatever the keys are, and every key lands in exactly one of \<^verbatim>\<open>added\<close> and
  \<^verbatim>\<open>errors\<close> (every occurrence of it, counted as a multiset). A key with no item and a
  key of a note or an attachment each get their entry in \<^verbatim>\<open>errors\<close>.
\<close>

theorem addToCollection_each_key_once:
  assumes "truthy collectionKey" and "ks \<noteq> []"
    and "Collections_getByLibraryAndKey z (libID_of z libraryID) collectionKey = Some c"
  shows "\<not> isl (addToCollection z collectionKey (JArr ks) libraryID)
     \<and> (\<forall>k \<in> set ks.
          (k \<in> set (added_keys (addToCollection z collectionKey (JArr ks) libraryID)))
          \<noteq> (k \<in> ke_key ` set (error_entries (addToCollection z collectionKey (JArr ks) libraryID))))
     \<and> mset (added_keys (addToCollection z collectionKey (JArr ks) libraryID))
         + mset (map ke_key (error_entries (addToCollection z collectionKey (JArr ks) libraryID)))
         = mset ks
     \<and> (\<forall>k \<in> set ks. Items_getByLibraryAndKey z (libID_of z libraryID) k = None \<longrightarrow>
          \<lparr> ke_key = k, ke_error = ''Item not found'' \<rparr>
            \<in> set (error_entries (addToCollection z collectionKey (JArr ks) libraryID)))
     \<and> (\<forall>k \<in> set ks. \<forall>it.
          Items_getByLibraryAndKey z (libID_of z libraryID) k = Some it
            \<and> (isNote it \<or> isAttachment it) \<longrightarrow>
          \<lparr> ke_key = k, ke_error = ''Cannot add notes or attachments directly'' \<rparr>
            \<in> set (error_entries (addToCollection z collectionKey (JArr ks) libraryID)))"
proof -
  let ?res = "addToCollection z collectionKey (JArr ks) libraryID"
  let ?lib = "libID_of z libraryID"
  note found = addToCollection_found [OF assms]
  have keys: "map ke_key (error_entries ?res) = filter (\<lambda>k. add_outcome z ?lib k \<noteq> None) ks"
    by (simp add: found(3) error_of_def comp_def)
  have once: "\<forall>k \<in> set ks. (k \<in> set (added_keys ?res)) \<noteq> (k \<in> ke_key ` set (error_entries ?res))"
  proof
    fix k assume "k \<in> set ks"
    have "ke_key ` set (error_entries ?res) = set (map ke_key (error_entries ?res))"
      by simp
    then show "(k \<in> set (added_keys ?res)) \<noteq> (k \<in> ke_key ` set (error_entries ?res))"
      unfolding keys found(2) using \<open>k \<in> set ks\<close> by auto
  qed
  have all: "mset (added_keys ?res) + mset (map ke_key (error_entries ?res)) = mset ks"
    unfolding keys found(2)
    using mset_filter_split [of "\<lambda>k. add_outcome z ?lib k = None" ks] by simp
  have missing: "\<forall>k \<in> set ks. Items_getByLibraryAndKey z ?lib k = None \<longrightarrow>
      \<lparr> ke_key = k, ke_error = ''Item not found'' \<rparr> \<in> set (error_entries ?res)"
  proof (intro ballI impI)
    fix k assume k: "k \<in> set ks" and none: "Items_getByLibraryAndKey z ?lib k = None"
    then have out: "add_outcome z ?lib k = Some ''Item not found''"
      by (simp add: add_outcome_def)
    then have "error_of z ?lib k = \<lparr> ke_key = k, ke_error = ''Item not found'' \<rparr>"
      by (simp add: error_of_def)
    moreover have "error_of z ?lib k \<in> set (error_entries ?res)"
      unfolding found(3) using k out by simp
    ultimately show "\<lparr> ke_key = k, ke_error = ''Item not found'' \<rparr> \<in> set (error_entries ?res)"
      by simp
  qed
  have child: "\<forall>k \<in> set ks. \<forall>it.
      Items_getByLibraryAndKey z ?lib k = Some it \<and> (isNote it \<or> isAttachment it) \<longrightarrow>
      \<lparr> ke_key = k, ke_error = ''Cannot add notes or attachments directly'' \<rparr>
        \<in> set (error_entries ?res)"
  proof (intro ballI allI impI)
    fix k it
    assume k: "k \<in> set ks"
      and it: "Items_getByLibraryAndKey z ?lib k = Some it \<and> (isNote it \<or> isAttachment it)"
    then have out: "add_outcome z ?lib k = Some ''Cannot add notes or attachments directly''"
      by (simp add: add_outcome_def)
    then have "error_of z ?lib k
        = \<lparr> ke_key = k, ke_error = ''Cannot add notes or attachments directly'' \<rparr>"
      by (simp add: error_of_def)
    moreover have "error_of z ?lib k \<in> set (error_entries ?res)"
      unfolding found(3) using k out by simp
    ultimately show "\<lparr> ke_key = k, ke_error = ''Cannot add notes or attachments directly'' \<rparr>
        \<in> set (error_entries ?res)"
      by simp
  qed
  from found(1) once all missing child show ?thesis by blast
qed

lemma ex_add_run:
  "added_keys (addToCollection ex_host (JStr ''COLL0001'') (JArr ex_keys) JUndefined)
     = [JStr ''AAAA1111'', JStr ''CCCC3333'']
   \<and> error_entries (addToCollection ex_host (JStr ''COLL0001'') (JArr ex_keys) JUndefined)
     = [\<lparr> ke_key = JStr ''ZZZZ0000'', ke_error = ''Item not found'' \<rparr>,
        \<lparr> ke_key = JStr ''BBBB2222'', ke_error = ''Cannot add notes or attachments directly'' \<rparr>,
        \<lparr> ke_key = JStr ''FFFF6666'', ke_error = ''Cannot add annotation to collection'' \<rparr>]"
  by code_simp

theorem addToCollection_each_key_once_witness:
  "truthy (JStr ''COLL0001'') \<and> ex_keys \<noteq> []
   \<and> Collections_getByLibraryAndKey ex_host (libID_of ex_host JUndefined) (JStr ''COLL0001'')
       = Some ex_collection
   \<and> \<not> isl (addToCollection ex_host (JStr ''COLL0001'') (JArr ex_keys) JUndefined)
   \<and> mset (added_keys (addToCollection ex_host (JStr ''COLL0001'') (JArr ex_keys) JUndefined))
       + mset (map ke_key
           (error_entries (addToCollection ex_host (JStr ''COLL0001'') (JArr ex_keys) JUndefined)))
       = mset ex_keys
   \<and> added_keys (addToCollection ex_host (JStr ''COLL0001'') (JArr ex_keys) JUndefined)
       = [JStr ''AAAA1111'', JStr ''CCCC3333'']
   \<and> error_entries (addToCollection ex_host (JStr ''COLL0001'') (JArr ex_keys) JUndefined)
     = [\<lparr> ke_key = JStr ''ZZZZ0000'', ke_error = ''Item not found'' \<rparr>,
        \<lparr> ke_key = JStr ''BBBB2222'', ke_error = ''Cannot add notes or attachments directly'' \<rparr>,
        \<lparr> ke_key = JStr ''FFFF6666'', ke_error = ''Cannot add annotation to collection'' \<rparr>]"
proof -
  have h1: "truthy (JStr ''COLL0001'')" by simp
  have h2: "ex_keys \<noteq> []" by (simp add: ex_keys_def)
  have h3: "Collections_getByLibraryAndKey ex_host (libID_of ex_host JUndefined) (JStr ''COLL0001'')
       = Some ex_collection"
    by (simp add: Collections_getByLibraryAndKey_def ex_host_def libID_of_def js_or_def
        ex_collection_def)
  from addToCollection_each_key_once [OF h1 h2 h3] h1 h2 h3 ex_add_run
  show ?thesis by blast
qed

subsection \<open>The dispatch of a request\<close>

lemma raised_code_map_sum [simp]: "raised_code (map_sum id f res) = raised_code res"
  by (cases res) (simp_all add: raised_code_def)

lemma raised_status_map_sum [simp]: "raised_status (map_sum id f res) = raised_status res"
  by (cases res) (simp_all add: raised_status_def)

lemma debug_codes:
  "raised_code (case debug z vs of Some e \<Rightarrow> Inl e | None \<Rightarrow> Inr r) \<in> command_codes"
  by (cases "debug z vs")
    (auto simp: raised_code_def command_codes_def dest: debug_error)

lemma createCollection_codes: "raised_code (createCollection z n p l) \<in> command_codes"
proof -
  have "raised_code (case debug z' vs of Some e \<Rightarrow> Inl e | None \<Rightarrow> Inr r) \<in> command_codes"
    for z' vs and r :: "created_json \<times> zotero"
    by (rule debug_codes)
  then show ?thesis
    by (auto simp: createCollection_def rpcError_def command_codes_def Let_def
        rpcError_about_code raised_code_def split: prod.splits option.splits
        dest: debug_error)
qed

lemma getCollection_codes: "raised_code (getCollection z k l) \<in> command_codes"
  by (auto simp: getCollection_def raised_code_def rpcError_def command_codes_def Let_def
      rpcError_about_code split: option.splits)

lemma addToCollection_codes: "raised_code (addToCollection z k ks l) \<in> command_codes"
  by (auto simp: addToCollection_def raised_code_def rpcError_def command_codes_def Let_def
      rpcError_about_code split: option.splits prod.splits dest: debug_error)

lemma removeFromCollection_codes: "raised_code (removeFromCollection z k ks l) \<in> command_codes"
  by (auto simp: removeFromCollection_def raised_code_def rpcError_def command_codes_def Let_def
      rpcError_about_code split: option.splits prod.splits dest: debug_error)

lemma searchItems_codes: "raised_code (searchItems z q lmt l) \<in> command_codes"
  by (cases "nonempty_string q"; cases "limit_converts z lmt")
    (simp_all add: searchItems_Inr searchItems_Inl searchItems_throws raised_code_def
      command_codes_def)

lemma getItem_codes: "raised_code (getItem z k l) \<in> command_codes"
  by (auto simp: getItem_def raised_code_def rpcError_def command_codes_def Let_def
      rpcError_about_code split: option.splits)

lemma listCollections_codes: "raised_code (listCollections z l p) \<in> command_codes"
  by (auto simp: listCollections_def raised_code_def rpcError_def command_codes_def Let_def
      rpcError_about_code split: option.splits)

lemma with_params_codes:
  assumes "\<And>p. raised_code (f p) \<in> command_codes"
  shows "raised_code (with_params params f) \<in> command_codes"
proof (cases "destructure params")
  case (Inl e)
  then have "e = TypeError" by (cases params) auto
  with Inl show ?thesis by (simp add: with_params_def raised_code_def command_codes_def)
next
  case (Inr p)
  with assms [of p] show ?thesis by (simp add: with_params_def)
qed

lemma destructure_body:
  "body \<noteq> JNull \<Longrightarrow> body \<noteq> JUndefined \<Longrightarrow> destructure body = Inr (get_prop body)"
  by (cases body) simp_all

lemma handleRpcRequest_cases:
  assumes "body \<noteq> JNull" and "body \<noteq> JUndefined"
  shows "\<not> truthy (get_prop body ''method'') \<Longrightarrow>
           handleRpcRequest z body = Inl (RpcError ''INVALID_REQUEST'' ''Method is required'' 400)"
    and "truthy (get_prop body ''method'') \<Longrightarrow> \<not> converts (get_prop body ''method'') \<Longrightarrow>
           handleRpcRequest z body = Inl TypeError"
    and "truthy (get_prop body ''method'') \<Longrightarrow> converts (get_prop body ''method'') \<Longrightarrow>
         get_prop body ''method'' \<notin> set (map JStr supported_methods) \<Longrightarrow>
           raised_code (handleRpcRequest z body) = Some ''METHOD_NOT_FOUND''
           \<and> raised_status (handleRpcRequest z body) = Some 404"
    and "get_prop body ''method'' \<in> set (map JStr supported_methods) \<Longrightarrow>
           raised_code (handleRpcRequest z body) \<in> command_codes"
proof -
  note d = destructure_body [OF assms]
  show "handleRpcRequest z body = Inl (RpcError ''INVALID_REQUEST'' ''Method is required'' 400)"
    if "\<not> truthy (get_prop body ''method'')"
    using that by (simp add: handleRpcRequest_def d rpcError_def)
  show "handleRpcRequest z body = Inl TypeError"
    if "truthy (get_prop body ''method'')" and "\<not> converts (get_prop body ''method'')"
    using that by (simp add: handleRpcRequest_def d debug_one Let_def)
  show "raised_code (handleRpcRequest z body) = Some ''METHOD_NOT_FOUND''
      \<and> raised_status (handleRpcRequest z body) = Some 404"
    if "truthy (get_prop body ''method'')" and "converts (get_prop body ''method'')"
      and "get_prop body ''method'' \<notin> set (map JStr supported_methods)"
    using that
    by (simp add: handleRpcRequest_def d debug_one supported_methods_def Let_def
        raised_code_def raised_status_def rpcError_about_code)
  show "raised_code (handleRpcRequest z body) \<in> command_codes"
    if "get_prop body ''method'' \<in> set (map JStr supported_methods)"
  proof -
    from that have "get_prop body ''method'' = JStr ''createCollection''
        \<or> get_prop body ''method'' = JStr ''getCollection''
        \<or> get_prop body ''method'' = JStr ''addToCollection''
        \<or> get_prop body ''method'' = JStr ''removeFromCollection''
        \<or> get_prop body ''method'' = JStr ''searchItems''
        \<or> get_prop body ''method'' = JStr ''getItem''
        \<or> get_prop body ''method'' = JStr ''listCollections''"
      by (simp add: supported_methods_def)
    then show ?thesis
      by (elim disjE)
        (simp_all add: handleRpcRequest_def d Let_def debug_one with_params_codes
          createCollection_codes getCollection_codes addToCollection_codes
          removeFromCollection_codes searchItems_codes getItem_codes listCollections_codes)
  qed
qed

lemma command_codes_not:
  "c \<in> command_codes \<Longrightarrow> c \<noteq> Some ''METHOD_NOT_FOUND'' \<and> c \<noteq> Some ''INVALID_REQUEST''"
  by (auto simp: command_codes_def)

text \<open>
  C10, as the code has it. The method is logged before the dispatch, in a template
  literal, so it is converted to a string first. For a body other than \<^verbatim>\<open>null\<close>, the
  request raises \<^verbatim>\<open>METHOD_NOT_FOUND\<close> (status 404) exactly when \<^verbatim>\<open>method\<close> is truthy,
  converts to a string and is not one of the seven commands, and \<^verbatim>\<open>INVALID_REQUEST\<close>
  (status 400) exactly when \<^verbatim>\<open>method\<close> is falsy: absent, but also \<^verbatim>\<open>null\<close>,
  \<^verbatim>\<open>false\<close>, \<^verbatim>\<open>0\<close> or the empty string. Every string, number and boolean converts; a
  truthy method that does not (an object with a property named \<^verbatim>\<open>toString\<close>, or an
  array holding one) makes the request throw a TypeError, whose status is 500. To
  convert is for the logging of the method not to throw.
\<close>

theorem handleRpcRequest_method_errors:
  assumes "body \<noteq> JNull" and "body \<noteq> JUndefined"
  shows "(raised_code (handleRpcRequest z body) = Some ''METHOD_NOT_FOUND'')
           = (truthy (get_prop body ''method'') \<and> converts (get_prop body ''method'')
              \<and> get_prop body ''method'' \<notin> set (map JStr supported_methods))
       \<and> (raised_code (handleRpcRequest z body) = Some ''METHOD_NOT_FOUND''
            \<longrightarrow> raised_status (handleRpcRequest z body) = Some 404)
       \<and> (raised_code (handleRpcRequest z body) = Some ''INVALID_REQUEST'')
           = (\<not> truthy (get_prop body ''method''))
       \<and> (raised_code (handleRpcRequest z body) = Some ''INVALID_REQUEST''
            \<longrightarrow> raised_status (handleRpcRequest z body) = Some 400)
       \<and> (\<not> method_present body
            \<longrightarrow> raised_code (handleRpcRequest z body) = Some ''INVALID_REQUEST'')
       \<and> (truthy (get_prop body ''method'') \<and> \<not> converts (get_prop body ''method'')
            \<longrightarrow> handleRpcRequest z body = Inl TypeError
                \<and> raised_status (handleRpcRequest z body) = Some 500)
       \<and> converts (JStr s) \<and> converts (JNum q) \<and> converts (JBool b)
       \<and> converts (get_prop body ''method'') = (debug z [get_prop body ''method''] = None)"
proof -
  let ?m = "get_prop body ''method''"
  let ?res = "handleRpcRequest z body"
  note c = handleRpcRequest_cases [OF assms, of z]
  have known_converts: "converts ?m" if "?m \<in> set (map JStr supported_methods)"
    using that by auto
  consider (falsy) "\<not> truthy ?m"
    | (throws) "truthy ?m" "\<not> converts ?m"
    | (unknown) "truthy ?m" "converts ?m" "?m \<notin> set (map JStr supported_methods)"
    | (known) "truthy ?m" "?m \<in> set (map JStr supported_methods)"
    by blast
  then have main: "(raised_code ?res = Some ''METHOD_NOT_FOUND'')
           = (truthy ?m \<and> converts ?m \<and> ?m \<notin> set (map JStr supported_methods))
       \<and> (raised_code ?res = Some ''METHOD_NOT_FOUND'' \<longrightarrow> raised_status ?res = Some 404)
       \<and> (raised_code ?res = Some ''INVALID_REQUEST'') = (\<not> truthy ?m)
       \<and> (raised_code ?res = Some ''INVALID_REQUEST'' \<longrightarrow> raised_status ?res = Some 400)
       \<and> (truthy ?m \<and> \<not> converts ?m
            \<longrightarrow> ?res = Inl TypeError \<and> raised_status ?res = Some 500)"
  proof cases
    case falsy
    from c(1) [OF falsy] falsy show ?thesis
      by (simp add: raised_code_def raised_status_def)
  next
    case throws
    from c(2) [OF throws] throws show ?thesis
      by (simp add: raised_code_def raised_status_def)
  next
    case unknown
    from c(3) [OF unknown] unknown show ?thesis
      by simp
  next
    case known
    from command_codes_not [OF c(4) [OF known(2)]] known known_converts [OF known(2)]
    show ?thesis
      by simp
  qed
  have "\<not> truthy ?m" if "\<not> method_present body"
    using that by (cases body) (simp_all add: method_present_def split: option.splits)
  with main show ?thesis by (simp add: raised_status_def debug_one)
qed

theorem handleRpcRequest_method_errors_witness:
  "JObj [(''method'', JStr ''invalidMethod'')] \<noteq> JNull
   \<and> JObj [(''method'', JStr ''invalidMethod'')] \<noteq> JUndefined
   \<and> raised_code (handleRpcRequest ex_host (JObj [(''method'', JStr ''invalidMethod'')]))
       = Some ''METHOD_NOT_FOUND''
   \<and> raised_status (handleRpcRequest ex_host (JObj [(''method'', JStr ''invalidMethod'')]))
       = Some 404
   \<and> \<not> method_present (JObj [(''params'', JObj [])])
   \<and> raised_code (handleRpcRequest ex_host (JObj [(''params'', JObj [])]))
       = Some ''INVALID_REQUEST''
   \<and> raised_status (handleRpcRequest ex_host (JObj [(''params'', JObj [])])) = Some 400
   \<and> \<not> converts (JObj [(''toString'', JNum 1)])
   \<and> handleRpcRequest ex_host (JObj [(''method'', JObj [(''toString'', JNum 1)])])
       = Inl TypeError
   \<and> raised_status (handleRpcRequest ex_host (JObj [(''method'', JObj [(''toString'', JNum 1)])]))
       = Some 500"
proof -
  have "truthy (get_prop (JObj [(''method'', JStr ''invalidMethod'')]) ''method'')
      \<and> converts (get_prop (JObj [(''method'', JStr ''invalidMethod'')]) ''method'')
      \<and> get_prop (JObj [(''method'', JStr ''invalidMethod'')]) ''method''
          \<notin> set (map JStr supported_methods)"
    by (simp add: supported_methods_def)
  moreover have "\<not> method_present (JObj [(''params'', JObj [])])"
    by (simp add: method_present_def)
  moreover have "truthy (get_prop (JObj [(''method'', JObj [(''toString'', JNum 1)])]) ''method'')
      \<and> \<not> converts (get_prop (JObj [(''method'', JObj [(''toString'', JNum 1)])]) ''method'')"
    by simp
  ultimately show ?thesis
    using handleRpcRequest_method_errors [of "JObj [(''method'', JStr ''invalidMethod'')]" ex_host]
      handleRpcRequest_method_errors [of "JObj [(''params'', JObj [])]" ex_host]
      handleRpcRequest_method_errors [of "JObj [(''method'', JObj [(''toString'', JNum 1)])]"
        ex_host]
    by (simp add: raised_status_def)
qed

text \<open>
  C10 as the claim states it fails: a body whose \<^verbatim>\<open>method\<close> field is present and is
  the empty string (or \<^verbatim>\<open>null\<close>), which is none of the seven commands, raises
  \<^verbatim>\<open>INVALID_REQUEST\<close> with status 400, not \<^verbatim>\<open>METHOD_NOT_FOUND\<close>.
\<close>

theorem handleRpcRequest_method_counterexample:
  "method_present (JObj [(''method'', JStr [])])
   \<and> JStr [] \<notin> set (map JStr supported_methods)
   \<and> raised_code (handleRpcRequest ex_host (JObj [(''method'', JStr [])]))
       = Some ''INVALID_REQUEST''
   \<and> raised_status (handleRpcRequest ex_host (JObj [(''method'', JStr [])])) = Some 400
   \<and> method_present (JObj [(''method'', JNull)])
   \<and> raised_code (handleRpcRequest ex_host (JObj [(''method'', JNull)]))
       = Some ''INVALID_REQUEST''"
  by (simp add: method_present_def supported_methods_def handleRpcRequest_def raised_code_def
      raised_status_def rpcError_def)

section \<open>Properties of the ranking core\<close>

subsection \<open>The signal matcher\<close>


lemma shared_le_left: "length (filter (\<lambda>g. g \<in> set b) a) \<le> length a"
  by simp

lemma shared_le_right:
  assumes "distinct a" and "distinct b"
  shows "length (filter (\<lambda>g. g \<in> set b) a) \<le> length b"
proof -
  have "distinct (filter (\<lambda>g. g \<in> set b) a)"
    using assms(1) by simp
  then have "length (filter (\<lambda>g. g \<in> set b) a) = card (set (filter (\<lambda>g. g \<in> set b) a))"
    by (rule distinct_card [symmetric])
  also have "\<dots> \<le> card (set b)"
    by (rule card_mono) auto
  also have "\<dots> = length b"
    using assms(2) by (simp add: distinct_card)
  finally show ?thesis .
qed

lemma shared_le_union:
  assumes "distinct a"
  shows "length (filter (\<lambda>g. g \<in> set b) a) \<le> length (remdups (a @ b))"
proof -
  have "distinct (filter (\<lambda>g. g \<in> set b) a)"
    using assms by simp
  then have "length (filter (\<lambda>g. g \<in> set b) a) = card (set (filter (\<lambda>g. g \<in> set b) a))"
    by (rule distinct_card [symmetric])
  also have "\<dots> \<le> card (set (a @ b))"
    by (rule card_mono) auto
  also have "\<dots> = length (remdups (a @ b))"
    by (simp add: length_remdups_card_conv)
  finally show ?thesis .
qed

lemma ratio_range:
  fixes m n :: nat
  assumes "m \<le> n"
  shows "0 \<le> (if n = 0 then 0 else (of_nat m :: rat) / of_nat n)
       \<and> (if n = 0 then 0 else (of_nat m :: rat) / of_nat n) \<le> 1"
  using assms by (simp add: divide_le_eq_1)

lemma similarity_range: "0 \<le> similarity co s t \<and> similarity co s t \<le> 1"
proof (cases co)
  case Dice
  let ?a = "remdups (trigrams s)" and ?b = "remdups (trigrams t)"
  let ?shared = "length (filter (\<lambda>g. g \<in> set ?b) ?a)"
  have "?shared \<le> length ?a" and "?shared \<le> length ?b"
    using shared_le_left [of ?b ?a] shared_le_right [of ?a ?b] by simp_all
  then have "2 * ?shared \<le> length ?a + length ?b"
    by linarith
  from ratio_range [OF this] Dice show ?thesis
    unfolding similarity_def Let_def by simp
next
  case Jaccard
  let ?a = "remdups (trigrams s)" and ?b = "remdups (trigrams t)"
  let ?shared = "length (filter (\<lambda>g. g \<in> set ?b) ?a)"
  have "?shared \<le> length (remdups (?a @ ?b))"
    by (rule shared_le_union) simp
  from ratio_range [OF this] Jaccard show ?thesis
    unfolding similarity_def Let_def by simp
qed

lemma foldr_max_range:
  fixes xs :: "rat list"
  assumes "\<forall>x \<in> set xs. 0 \<le> x \<and> x \<le> 1"
  shows "0 \<le> foldr max xs 0 \<and> foldr max xs 0 \<le> 1"
  using assms by (induction xs) auto

lemma best_similarity_range:
  "0 \<le> best_similarity co t fieldText \<and> best_similarity co t fieldText \<le> 1"
  unfolding best_similarity_def
  by (rule foldr_max_range) (auto simp: similarity_range)

lemma fuzzy_similarity_range:
  "0 \<le> fuzzy_similarity cfg t fieldText \<and> fuzzy_similarity cfg t fieldText \<le> 1"
  by (simp add: fuzzy_similarity_def best_similarity_range)

lemma fuzzy_score_bounds:
  assumes "valid_config cfg" and "is_fuzzy cfg t fieldText"
  shows "0 < signal_score cfg (Fuzzy (fuzzy_similarity cfg t fieldText))"
    and "signal_score cfg (Fuzzy (fuzzy_similarity cfg t fieldText)) \<le> fuzzyScore cfg"
    and "signal_score cfg (Fuzzy (fuzzy_similarity cfg t fieldText)) < substringScore cfg"
proof -
  let ?s = "fuzzy_similarity cfg t fieldText"
  from assms have pos: "0 < ?s"
    by (simp add: valid_config_def is_fuzzy_def)
  from assms(1) have f: "0 < fuzzyScore cfg" "fuzzyScore cfg < substringScore cfg"
    by (simp_all add: valid_config_def)
  show "0 < signal_score cfg (Fuzzy ?s)"
    using pos f(1) by simp
  have "fuzzyScore cfg * ?s \<le> fuzzyScore cfg * 1"
    using fuzzy_similarity_range [of cfg t fieldText] f(1) by (intro mult_left_mono) simp_all
  then show le: "signal_score cfg (Fuzzy ?s) \<le> fuzzyScore cfg"
    by simp
  with f(2) show "signal_score cfg (Fuzzy ?s) < substringScore cfg"
    by simp
qed

text \<open>
  C4 (on the model of the matcher): for a valid configuration the scores of the signals
  are strictly ordered, Exact above WordBoundary above Substring above the Fuzzy base
  score above NoMatch, which is 0. The matcher returns the first, that is the strongest,
  of the signals that apply, and the score of the pair is the maximum of their scores,
  not their sum. A Fuzzy match scores its similarity times the Fuzzy base score, which
  is positive and strictly below the score of a Substring match.
\<close>

theorem strongest_signal_only:
  assumes "valid_config cfg"
  shows "signal_score cfg Exact > signal_score cfg WordBoundary
       \<and> signal_score cfg WordBoundary > signal_score cfg Substring
       \<and> signal_score cfg Substring > fuzzyScore cfg
       \<and> fuzzyScore cfg > signal_score cfg NoMatch
       \<and> signal_score cfg NoMatch = 0
       \<and> match_signal cfg t fieldText
           = (case applicable_signals cfg t fieldText of [] \<Rightarrow> NoMatch | s # rest \<Rightarrow> s)
       \<and> signal_score cfg (match_signal cfg t fieldText)
           = foldr max (map (signal_score cfg) (applicable_signals cfg t fieldText)) 0
       \<and> (is_fuzzy cfg t fieldText \<longrightarrow>
            0 < signal_score cfg (Fuzzy (fuzzy_similarity cfg t fieldText))
            \<and> signal_score cfg (Fuzzy (fuzzy_similarity cfg t fieldText))
                < signal_score cfg Substring)"
proof -
  from assms have order: "0 < fuzzyScore cfg" "fuzzyScore cfg < substringScore cfg"
    "substringScore cfg < wordBoundaryScore cfg" "wordBoundaryScore cfg < exactScore cfg"
    by (simp_all add: valid_config_def)
  have first: "match_signal cfg t fieldText
      = (case applicable_signals cfg t fieldText of [] \<Rightarrow> NoMatch | s # rest \<Rightarrow> s)"
    by (simp add: match_signal_def applicable_signals_def)
  have fz: "is_fuzzy cfg t fieldText \<longrightarrow>
      0 < signal_score cfg (Fuzzy (fuzzy_similarity cfg t fieldText))
      \<and> signal_score cfg (Fuzzy (fuzzy_similarity cfg t fieldText)) < signal_score cfg Substring"
    using fuzzy_score_bounds [OF assms] by simp
  have strongest: "signal_score cfg (match_signal cfg t fieldText)
      = foldr max (map (signal_score cfg) (applicable_signals cfg t fieldText)) 0"
  proof (cases "is_fuzzy cfg t fieldText")
    case True
    from fuzzy_score_bounds [OF assms True] order
    have "0 < fuzzyScore cfg * fuzzy_similarity cfg t fieldText"
      and "fuzzyScore cfg * fuzzy_similarity cfg t fieldText < substringScore cfg"
      by simp_all
    with order True show ?thesis
      by (simp add: match_signal_def applicable_signals_def max_def)
  next
    case False
    with order show ?thesis
      by (simp add: match_signal_def applicable_signals_def max_def)
  qed
  from order first strongest fz show ?thesis by simp
qed

theorem strongest_signal_only_witness:
  "valid_config default_config
   \<and> is_fuzzy default_config ''radiamce'' ''Neural Radiance Fields''
   \<and> match_signal default_config ''radiamce'' ''Neural Radiance Fields'' = Fuzzy (1 / 2)
   \<and> signal_score default_config (Fuzzy (1 / 2)) < signal_score default_config Substring
   \<and> applicable_signals default_config ''smith'' ''Smith''
       = [Exact, WordBoundary, Substring, Fuzzy 1]
   \<and> signal_score default_config (match_signal default_config ''smith'' ''Smith'') = 100"
proof -
  have v: "valid_config default_config"
    by (simp add: valid_config_def default_config_def field_names_def)
  have f: "is_fuzzy default_config ''radiamce'' ''Neural Radiance Fields''"
    by code_simp
  have s: "fuzzy_similarity default_config ''radiamce'' ''Neural Radiance Fields'' = 1 / 2"
    by code_simp
  have m: "match_signal default_config ''radiamce'' ''Neural Radiance Fields'' = Fuzzy (1 / 2)"
    by code_simp
  have a: "applicable_signals default_config ''smith'' ''Smith''
       = [Exact, WordBoundary, Substring, Fuzzy 1]"
    by code_simp
  from strongest_signal_only [OF v, of "''radiamce''" "''Neural Radiance Fields''"] f s
  have 1: "signal_score default_config (Fuzzy (1 / 2)) < signal_score default_config Substring"
    by simp
  from strongest_signal_only [OF v, of "''smith''" "''Smith''"] a
  have 2: "signal_score default_config (match_signal default_config ''smith'' ''Smith'') = 100"
    by (simp add: default_config_def)
  from v f m a 1 2 show ?thesis by blast
qed

subsection \<open>The scorer\<close>
















subsection \<open>The citation-key resolver\<close>

lemma resolve_cached:
  "cache (li_key it) = Some r \<Longrightarrow> resolve_citation_key store cache it = (r, cache)"
  by (simp add: resolve_citation_key_def)

lemma resolve_records:
  "snd (resolve_citation_key store cache it) (li_key it)
     = Some (fst (resolve_citation_key store cache it))"
  by (simp add: resolve_citation_key_def split: option.splits)

lemma resolve_extends:
  "cache k = Some r \<Longrightarrow> snd (resolve_citation_key store cache it) k = Some r"
  by (auto simp: resolve_citation_key_def split: option.splits)








subsection \<open>The ranker and the search\<close>

lemma ranks_before_key: "ranks_before a b \<longleftrightarrow> rank_key a < rank_key b"
  by (auto simp: ranks_before_def rank_key_def)

lemma insert_ranked_insort: "insert_ranked r xs = insort_key rank_key r xs"
  by (induction xs) (auto simp: ranks_before_key)

lemma rank_sort_key: "rank rs = sort_key rank_key rs"
proof -
  have "insert_ranked = insort_key rank_key"
    by (intro ext) (rule insert_ranked_insort)
  then show ?thesis
    by (simp add: rank_def sort_key_def)
qed

lemma ranks_before_irrefl: "\<not> ranks_before a a"
  by (simp add: ranks_before_key)

lemma ranks_before_trans: "ranks_before a b \<Longrightarrow> ranks_before b c \<Longrightarrow> ranks_before a c"
  unfolding ranks_before_key by (rule less_trans)

lemma ranks_before_total:
  "result_key a \<noteq> result_key b \<Longrightarrow> ranks_before a b \<or> ranks_before b a"
proof -
  assume "result_key a \<noteq> result_key b"
  then have "rank_key a \<noteq> rank_key b"
    by (auto simp: rank_key_def result_key_def)
  then show ?thesis
    unfolding ranks_before_key by (rule linorder_neq_iff [THEN iffD1]) 
qed

lemma rank_key_inj:
  assumes "distinct (map result_key rs)"
  shows "inj_on rank_key (set rs)"
proof (rule inj_onI)
  fix a b assume a: "a \<in> set rs" and b: "b \<in> set rs" and eq: "rank_key a = rank_key b"
  then have "result_key a = result_key b"
    by (simp add: rank_key_def result_key_def)
  moreover from assms have "inj_on result_key (set rs)"
    by (simp add: distinct_map)
  ultimately show "a = b"
    using a b by (auto dest: inj_onD)
qed

lemma rank_permutation_invariant:
  assumes "distinct (map result_key rs)" and "mset rs' = mset rs"
  shows "rank rs' = rank rs"
proof -
  have "sort_key rank_key rs = sort_key rank_key rs'"
    using assms(2) rank_key_inj [OF assms(1)] by (intro sort_key_eq_sort_key) simp_all
  then show ?thesis
    by (simp add: rank_sort_key)
qed

lemma rank_sorted: "sorted_wrt (\<lambda>a b. \<not> ranks_before b a) (rank rs)"
proof -
  have "sorted (map rank_key (sort_key rank_key rs))"
    by (rule sorted_sort_key)
  then have "sorted_wrt (\<lambda>a b. rank_key a \<le> rank_key b) (sort_key rank_key rs)"
    by (simp add: sorted_map)
  then show ?thesis
    by (simp add: rank_sort_key ranks_before_key not_less)
qed

lemma rank_mset: "mset (rank rs) = mset rs"
  by (simp add: rank_sort_key)

lemma resolve_mono: "cache \<subseteq>\<^sub>m snd (resolve_citation_key store cache it)"
  by (auto simp: map_le_def resolve_extends dom_def)

lemma resolve_rerun:
  assumes "resolve_citation_key store cache it = (r, cache1)" and "cache1 \<subseteq>\<^sub>m cache'"
  shows "resolve_citation_key store cache' it = (r, cache')"
proof -
  from assms(1) resolve_records [of store cache it] have "cache1 (li_key it) = Some r"
    by simp
  with assms(2) have "cache' (li_key it) = Some r"
    by (metis domI map_le_def)
  then show ?thesis
    by (rule resolve_cached)
qed

lemma score_item_mono: "cache \<subseteq>\<^sub>m snd (score_item cfg store terms cache it)"
proof -
  obtain ck c1 where res: "resolve_citation_key store cache it = (ck, c1)"
    by (cases "resolve_citation_key store cache it")
  with resolve_mono [of cache store it] have "cache \<subseteq>\<^sub>m c1"
    by simp
  with res show ?thesis
    by (simp add: score_item_def Let_def)
qed

lemma score_item_rerun:
  assumes "score_item cfg store terms cache it = (r, cache1)" and "cache1 \<subseteq>\<^sub>m cache'"
  shows "score_item cfg store terms cache' it = (r, cache')"
proof -
  obtain ck c1 where res: "resolve_citation_key store cache it = (ck, c1)"
    by (cases "resolve_citation_key store cache it")
  with assms(1) have c1: "c1 = cache1"
    and r: "r = \<lparr> res_item = it,
                  res_score = item_score cfg (extract_fields cfg it ck) terms,
                  res_matchedFields = matched_fields cfg (extract_fields cfg it ck) terms \<rparr>"
    by (simp_all add: score_item_def Let_def)
  from resolve_rerun [OF res] c1 assms(2)
  have "resolve_citation_key store cache' it = (ck, cache')"
    by simp
  with r show ?thesis
    by (simp add: score_item_def Let_def)
qed

lemma score_items_mono: "cache \<subseteq>\<^sub>m snd (score_items cfg store terms cache items)"
proof (induction items arbitrary: cache)
  case Nil
  then show ?case by simp
next
  case (Cons it items)
  obtain r cache1 where r: "score_item cfg store terms cache it = (r, cache1)"
    by (cases "score_item cfg store terms cache it")
  obtain rs cache2 where rs: "score_items cfg store terms cache1 items = (rs, cache2)"
    by (cases "score_items cfg store terms cache1 items")
  from score_item_mono [of cache cfg store terms it] r have "cache \<subseteq>\<^sub>m cache1"
    by simp
  moreover from Cons.IH [of cache1] rs have "cache1 \<subseteq>\<^sub>m cache2"
    by simp
  ultimately have "cache \<subseteq>\<^sub>m cache2"
    by (rule map_le_trans)
  with r rs show ?case
    by simp
qed

lemma score_items_rerun:
  assumes "score_items cfg store terms cache items = (rs, cache2)" and "cache2 \<subseteq>\<^sub>m cache'"
  shows "score_items cfg store terms cache' items = (rs, cache')"
  using assms
proof (induction items arbitrary: cache rs)
  case Nil
  then show ?case by simp
next
  case (Cons it items)
  obtain r cache1 where r: "score_item cfg store terms cache it = (r, cache1)"
    by (cases "score_item cfg store terms cache it")
  obtain rs1 c2 where rs1: "score_items cfg store terms cache1 items = (rs1, c2)"
    by (cases "score_items cfg store terms cache1 items")
  from Cons.prems(1) r rs1 have c2: "c2 = cache2"
    and rs: "rs = (if res_score r = 0 then rs1 else r # rs1)"
    by simp_all
  from score_items_mono [of cache1 cfg store terms items] rs1 c2 have "cache1 \<subseteq>\<^sub>m cache2"
    by simp
  then have "cache1 \<subseteq>\<^sub>m cache'"
    using Cons.prems(2) by (rule map_le_trans)
  from score_item_rerun [OF r this] have 1: "score_item cfg store terms cache' it = (r, cache')" .
  from rs1 c2 have "score_items cfg store terms cache1 items = (rs1, cache2)"
    by simp
  from Cons.IH [OF this Cons.prems(2)]
  have 2: "score_items cfg store terms cache' items = (rs1, cache')" .
  from 1 2 rs show ?case
    by simp
qed

lemma search_rerun:
  "search cfg store (cache_after cache (search cfg store cache q limit items)) q limit items
     = search cfg store cache q limit items"
proof (cases "tokenize cfg q")
  case (Inl e)
  then show ?thesis
    by (simp add: search_def cache_after_def)
next
  case (Inr terms)
  obtain rs cache2 where rs: "score_items cfg store terms cache items = (rs, cache2)"
    by (cases "score_items cfg store terms cache items")
  have "cache2 \<subseteq>\<^sub>m cache2"
    by simp
  from score_items_rerun [OF rs this]
  have again: "score_items cfg store terms cache2 items = (rs, cache2)" .
  from Inr rs have "cache_after cache (search cfg store cache q limit items) = cache2"
    by (simp add: search_def cache_after_def Let_def)
  with Inr rs again show ?thesis
    by (simp add: search_def Let_def)
qed

text \<open>
  C7 (on the model of the ranker and of the search): \<open>ranks_before\<close> is irreflexive and
  transitive and decides every two results whose items have different keys, so it is a
  strict total order on the results of a search. The ranked list is sorted by it and is
  a permutation of the scored results, and for items with distinct keys it is the same
  list in whatever order the scored results arrive. A second search on the same inputs,
  run with the cache the first one left, returns the same output and the same cache.
\<close>

theorem search_is_deterministic:
  "\<not> ranks_before a a
   \<and> (ranks_before a b \<and> ranks_before b c \<longrightarrow> ranks_before a c)
   \<and> (result_key a \<noteq> result_key b \<longrightarrow> ranks_before a b \<or> ranks_before b a)
   \<and> sorted_wrt (\<lambda>x y. \<not> ranks_before y x) (rank rs)
   \<and> mset (rank rs) = mset rs
   \<and> (distinct (map result_key rs) \<and> mset rs' = mset rs \<longrightarrow> rank rs' = rank rs)
   \<and> search cfg store (cache_after cache (search cfg store cache q limit items)) q limit items
       = search cfg store cache q limit items"
  using ranks_before_irrefl [of a] ranks_before_trans [of a b c] ranks_before_total [of a b]
    rank_sorted [of rs] rank_mset [of rs] rank_permutation_invariant [of rs rs']
    search_rerun [of cfg store cache q limit items]
  by blast

theorem search_is_deterministic_witness:
  "ranks_before ex_first ex_second \<and> ranks_before ex_second ex_third
   \<and> ranks_before ex_first ex_third
   \<and> result_key ex_first \<noteq> result_key ex_second
   \<and> \<not> ranks_before ex_second ex_first
   \<and> distinct (map result_key [ex_third, ex_first, ex_second])
   \<and> mset [ex_second, ex_third, ex_first] = mset [ex_third, ex_first, ex_second]
   \<and> rank [ex_second, ex_third, ex_first] = rank [ex_third, ex_first, ex_second]
   \<and> rank [ex_third, ex_first, ex_second] = [ex_first, ex_second, ex_third]
   \<and> search default_config (Some ex_store)
        (cache_after Map.empty
           (search default_config (Some ex_store) Map.empty ''neural radiance'' None ex_library))
        ''neural radiance'' None ex_library
       = search default_config (Some ex_store) Map.empty ''neural radiance'' None ex_library"
proof -
  have ab: "ranks_before ex_first ex_second"
    by (simp add: ranks_before_def ex_first_def ex_second_def lib_item_def)
  have bc: "ranks_before ex_second ex_third"
    by (simp add: ranks_before_def ex_third_def ex_second_def lib_item_def)
  have nba: "\<not> ranks_before ex_second ex_first"
    by (simp add: ranks_before_def ex_first_def ex_second_def lib_item_def)
  have keys: "result_key ex_first \<noteq> result_key ex_second"
    by (simp add: result_key_def ex_first_def ex_second_def lib_item_def)
  have d: "distinct (map result_key [ex_third, ex_first, ex_second])"
    by (simp add: result_key_def ex_first_def ex_second_def ex_third_def lib_item_def)
  have m: "mset [ex_second, ex_third, ex_first] = mset [ex_third, ex_first, ex_second]"
    by simp
  have ca: "\<not> ranks_before ex_third ex_first"
    by (simp add: ranks_before_def ex_first_def ex_third_def lib_item_def)
  have cb: "\<not> ranks_before ex_third ex_second"
    by (simp add: ranks_before_def ex_third_def ex_second_def lib_item_def)
  note t = search_is_deterministic [of ex_first ex_second ex_third
      "[ex_third, ex_first, ex_second]" "[ex_second, ex_third, ex_first]"
      default_config "Some ex_store" Map.empty "''neural radiance''" None ex_library]
  from t ab bc have ac: "ranks_before ex_first ex_third"
    by blast
  have r: "rank [ex_third, ex_first, ex_second] = [ex_first, ex_second, ex_third]"
    by (simp add: rank_def ab bc ac nba ca cb)
  from t d m have p: "rank [ex_second, ex_third, ex_first] = rank [ex_third, ex_first, ex_second]"
    by blast
  from t have s: "search default_config (Some ex_store)
        (cache_after Map.empty
           (search default_config (Some ex_store) Map.empty ''neural radiance'' None ex_library))
        ''neural radiance'' None ex_library
       = search default_config (Some ex_store) Map.empty ''neural radiance'' None ex_library"
    by blast
  from ab bc ac keys nba d m p r s show ?thesis
    by blast
qed

end
